theory Spec2Isabelle
  imports Main
begin

section \<open>The IP reconciler of whereabouts (pkg/reconciler/iploop.go)\<close>

text \<open>
  The reconciler looks, pool by pool, for IP reservations whose pod is no longer
  listed among the live pods, removes them from the pool's reservation list and
  writes the list back. This theory embeds the functions of
  \<^verbatim>\<open>pkg/reconciler/iploop.go\<close> and proves the properties the design document
  states about them.
\<close>

subsection \<open>Data\<close>

text \<open>
  Modelled from the spec: \<^verbatim>\<open>types.IPReservation\<close>, declared in \<^verbatim>\<open>pkg/types\<close>,
  outside the files embedded here. The design document (3) gives a reservation an
  address, canonically stringifiable, and an owner that may be empty; these are
  the two fields the reconciler reads, \<^verbatim>\<open>IP\<close> and \<^verbatim>\<open>PodRef\<close>. The reconciler
  observes the address only through \<^verbatim>\<open>IP.String()\<close> (the ledger key of
  \<^verbatim>\<open>computeCleanedUpIPs\<close>), so the field holds that canonical string.
\<close>

record IPReservation =
  IP :: string
  PodRef :: string

text \<open>
  Modelled from the spec: \<^verbatim>\<open>storage.IPPool\<close>, declared in \<^verbatim>\<open>pkg/storage\<close>,
  outside the files embedded here. The reconciler uses its two methods,
  \<^verbatim>\<open>Allocations()\<close> and \<^verbatim>\<open>Update(ctx, reservations)\<close>. The design document (3)
  describes a pool as its reservations together with an opaque identity and
  version by which the store detects conflicting writes. A pool value is the
  snapshot the looper holds: \<^verbatim>\<open>Allocations()\<close> reads its list, the same at every
  call; \<^verbatim>\<open>Update\<close> is an operation of the client below.
\<close>

record IPPool =
  poolKey :: string
  poolVersion :: nat
  Allocations :: "IPReservation list"

text \<open>\<^verbatim>\<open>OrphanedIPReservations\<close>; its field \<^verbatim>\<open>Allocations\<close> is renamed, the
  name being taken by the pool's method.\<close>

record OrphanedIPReservations =
  Pool :: IPPool
  OrphanedAllocations :: "IPReservation list"

text \<open>A pod as \<^verbatim>\<open>getPodRefs\<close> reads it: namespace and name.\<close>

record Pod =
  podNamespace :: string
  podName :: string

text \<open>
  The errors the reconciler builds or passes on. The argument of a wrapped error
  is the message of the error it wraps.
\<close>

datatype error =
    NewClientFailed string
  | ListPodsFailed string
  | ListIPPoolsFailed string
  | PodRefMissing IPReservation
  | OwnerNotFound string
  | UpdateFailed string

text \<open>
  \<^verbatim>\<open>kubernetes.Client\<close> and the \<^verbatim>\<open>Update\<close> method of the pools it hands out,
  declared in \<^verbatim>\<open>pkg/storage/kubernetes\<close>, outside the files embedded here. The
  reconciler is written against these three operations, which are therefore
  parameters of the embedding: each reads (and \<^verbatim>\<open>UpdatePool\<close> writes) the state
  \<open>'st\<close> of the cluster and may fail with a message.
\<close>

record 'st Client =
  ListPods :: "'st \<Rightarrow> string + Pod list"
  ListIPPools :: "'st \<Rightarrow> string + IPPool list"
  UpdatePool :: "'st \<Rightarrow> IPPool \<Rightarrow> IPReservation list \<Rightarrow> string + 'st"

record 'st ReconcileLooper =
  k8sClient :: "'st Client"
  livePodRefs :: "string list"
  orphanedIPs :: "OrphanedIPReservations list"

text \<open>
  Everything the reconciler does to the outside: the state of the cluster, the
  errors written by \<^verbatim>\<open>logging.Errorf\<close>, the pod references the deallocation
  primitive was invoked with, and the invocations of \<^verbatim>\<open>Pool.Update\<close> (successful
  or not), each in the order they happened. \<^verbatim>\<open>logging.Debugf\<close> is left out.
\<close>

record 'st world =
  cluster :: 'st
  errorLog :: "error list"
  deallocCalls :: "string list"
  updateCalls :: "(IPPool \<times> IPReservation list) list"

definition Errorf :: "error \<Rightarrow> 'st world \<Rightarrow> 'st world" where
  "Errorf err w = w\<lparr>errorLog := errorLog w @ [err]\<rparr>"

subsection \<open>Phase 1: the live pods and the orphaned reservations\<close>

fun podRefsLoop :: "Pod list \<Rightarrow> string list \<Rightarrow> string list" where
  "podRefsLoop [] podRefs = podRefs"
| "podRefsLoop (pod # pods) podRefs =
     podRefsLoop pods (podRefs @ [podNamespace pod @ ''/'' @ podName pod])"

definition getPodRefs :: "'st Client \<Rightarrow> 'st world \<Rightarrow> error + string list" where
  "getPodRefs client w =
     (case ListPods client (cluster w) of
        Inl err \<Rightarrow> Inl (ListPodsFailed err)
      | Inr pods \<Rightarrow> Inr (podRefsLoop pods []))"

fun isPodAliveLoop :: "string list \<Rightarrow> string \<Rightarrow> bool" where
  "isPodAliveLoop [] podRef = False"
| "isPodAliveLoop (livePodRef # rest) podRef =
     (if podRef = livePodRef then True else isPodAliveLoop rest podRef)"

definition isPodAlive :: "'st ReconcileLooper \<Rightarrow> string \<Rightarrow> bool" where
  "isPodAlive rl podRef = isPodAliveLoop (livePodRefs rl) podRef"

text \<open>The inner loop of \<^verbatim>\<open>findOrphanedIPsPerPool\<close>, over one pool's reservations.\<close>

fun scanAllocations ::
  "'st ReconcileLooper \<Rightarrow> IPReservation list \<Rightarrow> OrphanedIPReservations \<Rightarrow> 'st world
     \<Rightarrow> 'st world \<times> OrphanedIPReservations" where
  "scanAllocations rl [] orphanIP w = (w, orphanIP)"
| "scanAllocations rl (allocation # rest) orphanIP w =
     (if PodRef allocation = '''' then
        scanAllocations rl rest orphanIP (Errorf (PodRefMissing allocation) w)
      else if \<not> isPodAlive rl (PodRef allocation) then
        scanAllocations rl rest
          (orphanIP\<lparr>OrphanedAllocations := OrphanedAllocations orphanIP @ [allocation]\<rparr>) w
      else scanAllocations rl rest orphanIP w)"

text \<open>The outer loop, over the pools.\<close>

fun scanPools ::
  "IPPool list \<Rightarrow> 'st ReconcileLooper \<Rightarrow> 'st world \<Rightarrow> 'st world \<times> 'st ReconcileLooper" where
  "scanPools [] rl w = (w, rl)"
| "scanPools (pool # rest) rl w =
     (case scanAllocations rl (Allocations pool)
             \<lparr>Pool = pool, OrphanedAllocations = []\<rparr> w of
        (w', orphanIP) \<Rightarrow>
          if length (OrphanedAllocations orphanIP) > 0
          then scanPools rest (rl\<lparr>orphanedIPs := orphanedIPs rl @ [orphanIP]\<rparr>) w'
          else scanPools rest rl w')"

definition findOrphanedIPsPerPool ::
  "'st ReconcileLooper \<Rightarrow> 'st world \<Rightarrow> 'st world \<times> 'st ReconcileLooper \<times> error option" where
  "findOrphanedIPsPerPool rl w =
     (case ListIPPools (k8sClient rl) (cluster w) of
        Inl err \<Rightarrow> (Errorf (ListIPPoolsFailed err) w, rl, Some (ListIPPoolsFailed err))
      | Inr ipPools \<Rightarrow> (case scanPools ipPools rl w of (w', rl') \<Rightarrow> (w', rl', None)))"

text \<open>
  \<^verbatim>\<open>NewReconcileLooper\<close>; its first argument is what \<^verbatim>\<open>kubernetes.NewClient\<close>
  returned for the configuration path.
\<close>

definition NewReconcileLooper ::
  "string + 'st Client \<Rightarrow> 'st world \<Rightarrow> 'st world \<times> (error + 'st ReconcileLooper)" where
  "NewReconcileLooper newClient w =
     (case newClient of
        Inl err \<Rightarrow> (Errorf (NewClientFailed err) w, Inl (NewClientFailed err))
      | Inr client \<Rightarrow>
          (case getPodRefs client w of
             Inl err \<Rightarrow> (w, Inl err)
           | Inr podRefs \<Rightarrow>
               (case findOrphanedIPsPerPool
                       \<lparr>k8sClient = client, livePodRefs = podRefs, orphanedIPs = []\<rparr> w of
                  (w', looper, Some err) \<Rightarrow> (w', Inl err)
                | (w', looper, None) \<Rightarrow> (w', Inr looper))))"

subsection \<open>Phase 2: removing the orphaned reservations\<close>

text \<open>The closure \<^verbatim>\<open>matchByPodRef\<close> of \<^verbatim>\<open>ReconcileIPPools\<close>; the first argument
  of the loop is the index \<^verbatim>\<open>idx\<close> of the range clause.\<close>

fun matchByPodRefLoop :: "int \<Rightarrow> IPReservation list \<Rightarrow> string \<Rightarrow> int" where
  "matchByPodRefLoop idx [] podRef = - 1"
| "matchByPodRefLoop idx (v # rest) podRef =
     (if PodRef v = podRef then idx else matchByPodRefLoop (idx + 1) rest podRef)"

definition matchByPodRef :: "IPReservation list \<Rightarrow> string \<Rightarrow> int" where
  "matchByPodRef reservations podRef = matchByPodRefLoop 0 reservations podRef"

text \<open>
  Modelled from the spec: \<^verbatim>\<open>allocate.IterateForDeallocation\<close>, which lives in
  \<^verbatim>\<open>pkg/allocate\<close>, outside the files embedded here. The design document
  (4.3) gives its contract: the match function locates the reservation; when it
  finds none the primitive fails with a not-found condition; on a match the list
  is returned with exactly that one element removed, the order of the others
  kept, together with the removed element. An index that names no element of the
  list is no match.
\<close>

definition IterateForDeallocation ::
  "IPReservation list \<Rightarrow> string \<Rightarrow> (IPReservation list \<Rightarrow> string \<Rightarrow> int)
     \<Rightarrow> error + (IPReservation list \<times> IPReservation)" where
  "IterateForDeallocation reservelist ownerRef matchFn =
     (let foundidx = matchFn reservelist ownerRef in
      if foundidx < 0 \<or> int (length reservelist) \<le> foundidx
      then Inl (OwnerNotFound ownerRef)
      else Inr (take (nat foundidx) reservelist @ drop (Suc (nat foundidx)) reservelist,
                reservelist ! nat foundidx))"

fun podRefsToDeallocateLoop :: "IPReservation list \<Rightarrow> string list \<Rightarrow> string list" where
  "podRefsToDeallocateLoop [] podRefsToDeallocate = podRefsToDeallocate"
| "podRefsToDeallocateLoop (orphanedAllocation # rest) podRefsToDeallocate =
     podRefsToDeallocateLoop rest (podRefsToDeallocate @ [PodRef orphanedAllocation])"

definition findOutPodRefsToDeallocateIPsFrom :: "OrphanedIPReservations \<Rightarrow> string list" where
  "findOutPodRefsToDeallocateIPsFrom orphanedIP =
     podRefsToDeallocateLoop (OrphanedAllocations orphanedIP) []"

text \<open>\<^verbatim>\<open>computeCleanedUpIPs\<close>: the ledger of the addresses still reserved, then
  the old reservations whose address the ledger lacks.\<close>

fun ledgerLoop :: "IPReservation list \<Rightarrow> (string \<rightharpoonup> bool) \<Rightarrow> (string \<rightharpoonup> bool)" where
  "ledgerLoop [] ledger = ledger"
| "ledgerLoop (reservation # rest) ledger = ledgerLoop rest (ledger(IP reservation \<mapsto> True))"

fun deletedLoop ::
  "IPReservation list \<Rightarrow> (string \<rightharpoonup> bool) \<Rightarrow> IPReservation list \<Rightarrow> IPReservation list" where
  "deletedLoop [] ledger deletedReservations = deletedReservations"
| "deletedLoop (reservation # rest) ledger deletedReservations =
     (case ledger (IP reservation) of
        None \<Rightarrow> deletedLoop rest ledger (deletedReservations @ [reservation])
      | Some found \<Rightarrow> deletedLoop rest ledger deletedReservations)"

definition computeCleanedUpIPs ::
  "IPReservation list \<Rightarrow> IPReservation list \<Rightarrow> IPReservation list" where
  "computeCleanedUpIPs oldIPReservations newIPReservations =
     deletedLoop oldIPReservations (ledgerLoop newIPReservations Map.empty) []"

text \<open>The loop of \<^verbatim>\<open>ReconcileIPPools\<close> over the pod references of one pool: one
  invocation of the primitive for each, stopping at the first error.\<close>

fun deallocateLoop ::
  "'st world \<Rightarrow> IPReservation list \<Rightarrow> string list
     \<Rightarrow> 'st world \<times> (error + IPReservation list)" where
  "deallocateLoop w currentIPReservations [] = (w, Inr currentIPReservations)"
| "deallocateLoop w currentIPReservations (podRef # rest) =
     (case IterateForDeallocation currentIPReservations podRef matchByPodRef of
        Inl err \<Rightarrow> (w\<lparr>deallocCalls := deallocCalls w @ [podRef]\<rparr>, Inl err)
      | Inr (updated, removed) \<Rightarrow>
          deallocateLoop (w\<lparr>deallocCalls := deallocCalls w @ [podRef]\<rparr>) updated rest)"

text \<open>An invocation of \<^verbatim>\<open>Pool.Update\<close>: it is recorded, and the cluster changes
  when the store accepts it.\<close>

definition PoolUpdate ::
  "'st Client \<Rightarrow> 'st world \<Rightarrow> IPPool \<Rightarrow> IPReservation list \<Rightarrow> 'st world \<times> string option" where
  "PoolUpdate client w pool reservations =
     (case UpdatePool client (cluster w) pool reservations of
        Inl err \<Rightarrow> (w\<lparr>updateCalls := updateCalls w @ [(pool, reservations)]\<rparr>, Some err)
      | Inr st \<Rightarrow>
          (w\<lparr>cluster := st, updateCalls := updateCalls w @ [(pool, reservations)]\<rparr>, None))"

text \<open>The loop of \<^verbatim>\<open>ReconcileIPPools\<close> over the orphan groups. The result is the
  pair the Go function returns: the list is nil (empty) on every error return.\<close>

fun reconcileLoop ::
  "'st ReconcileLooper \<Rightarrow> OrphanedIPReservations list \<Rightarrow> IPReservation list \<Rightarrow> 'st world
     \<Rightarrow> 'st world \<times> IPReservation list \<times> error option" where
  "reconcileLoop rl [] totalCleanedUpIps w = (w, totalCleanedUpIps, None)"
| "reconcileLoop rl (orphanedIP # rest) totalCleanedUpIps w =
     (let originalIPReservations = Allocations (Pool orphanedIP);
          currentIPReservations = Allocations (Pool orphanedIP);
          podRefsToDeallocate = findOutPodRefsToDeallocateIPsFrom orphanedIP
      in case deallocateLoop w currentIPReservations podRefsToDeallocate of
           (w1, Inl err) \<Rightarrow> (w1, [], Some err)
         | (w1, Inr updated) \<Rightarrow>
             (case PoolUpdate (k8sClient rl) w1 (Pool orphanedIP) updated of
                (w2, Some err) \<Rightarrow> (Errorf (UpdateFailed err) w2, [], Some (UpdateFailed err))
              | (w2, None) \<Rightarrow>
                  reconcileLoop rl rest
                    (totalCleanedUpIps @ computeCleanedUpIPs originalIPReservations updated) w2))"

definition ReconcileIPPools ::
  "'st ReconcileLooper \<Rightarrow> 'st world \<Rightarrow> 'st world \<times> IPReservation list \<times> error option" where
  "ReconcileIPPools rl w = reconcileLoop rl (orphanedIPs rl) [] w"

subsection \<open>A pass, and the store it runs against\<close>

text \<open>
  Modelled from the spec: the caller of the reconciler (\<^verbatim>\<open>cmd/reconciler\<close>,
  outside the files embedded here). The design document (4.4) composes the public
  operation \<open>reconcile()\<close> of the two phases, invoked in order: detect
  (\<^verbatim>\<open>NewReconcileLooper\<close>), then reclaim (\<^verbatim>\<open>ReconcileIPPools\<close>).
\<close>

definition reconcile ::
  "string + 'st Client \<Rightarrow> 'st world \<Rightarrow> 'st world \<times> IPReservation list \<times> error option" where
  "reconcile newClient w =
     (case NewReconcileLooper newClient w of
        (w', Inl err) \<Rightarrow> (w', [], Some err)
      | (w', Inr looper) \<Rightarrow> ReconcileIPPools looper w')"

text \<open>
  Modelled from the spec: the store behind \<^verbatim>\<open>kubernetes.Client\<close>
  (\<^verbatim>\<open>pkg/storage/kubernetes\<close>, outside the files embedded here). The design
  document (2, 3, 5) describes it: the inventory lists the live workloads, the
  pool store lists the pools, and \<open>Pool.update\<close> has optimistic-concurrency
  semantics: the write is rejected as a conflict if the pool changed since it
  was read (here: if the store holds no pool of that identity at the version of
  the snapshot), and otherwise replaces the pool's reservations and moves its
  version on.
\<close>

record Cluster =
  clusterPods :: "Pod list"
  clusterPools :: "IPPool list"

text \<open>
  Modelled from the spec: \<open>Pool.update\<close> of the pool store adapter, with the
  optimistic-concurrency semantics of the design document (5).
\<close>

definition clusterUpdate :: "Cluster \<Rightarrow> IPPool \<Rightarrow> IPReservation list \<Rightarrow> string + Cluster" where
  "clusterUpdate c pool reservations =
     (if list_ex (\<lambda>q. poolKey q = poolKey pool \<and> poolVersion q = poolVersion pool)
           (clusterPools c)
      then Inr (c\<lparr>clusterPools :=
                  map (\<lambda>q. if poolKey q = poolKey pool \<and> poolVersion q = poolVersion pool
                           then q\<lparr>poolVersion := Suc (poolVersion q), Allocations := reservations\<rparr>
                           else q)
                      (clusterPools c)\<rparr>)
      else Inl ''conflict'')"

text \<open>
  Modelled from the spec: the client of that store. Its two listings return what
  the store holds; the design document's inventory and pool listing can fail,
  this store's do not.
\<close>

definition clusterClient :: "Cluster Client" where
  "clusterClient =
     \<lparr>ListPods = (\<lambda>c. Inr (clusterPods c)),
      ListIPPools = (\<lambda>c. Inr (clusterPools c)),
      UpdatePool = clusterUpdate\<rparr>"

text \<open>A world that has seen nothing yet.\<close>

definition freshWorld :: "'st \<Rightarrow> 'st world" where
  "freshWorld st = \<lparr>cluster = st, errorLog = [], deallocCalls = [], updateCalls = []\<rparr>"

subsection \<open>Example inputs\<close>

text \<open>The design document's scenario A: three reservations, the pods of the
  first and the third alive. Pod references have the form the source gives them,
  namespace/name.\<close>

definition scenarioPool :: IPPool where
  "scenarioPool =
     \<lparr>poolKey = ''pool-a'', poolVersion = 0,
      Allocations = [\<lparr>IP = ''10.0.0.1'', PodRef = ''ns/podA''\<rparr>,
                     \<lparr>IP = ''10.0.0.2'', PodRef = ''ns/podB''\<rparr>,
                     \<lparr>IP = ''10.0.0.3'', PodRef = ''ns/podC''\<rparr>]\<rparr>"

definition scenarioCluster :: Cluster where
  "scenarioCluster =
     \<lparr>clusterPods = [\<lparr>podNamespace = ''ns'', podName = ''podA''\<rparr>,
                      \<lparr>podNamespace = ''ns'', podName = ''podC''\<rparr>],
      clusterPools = [scenarioPool]\<rparr>"

text \<open>A pool without orphans and a pool in which one dead pod holds two
  addresses (scenario C: two pools, one of them with orphans).\<close>

definition cleanPool :: IPPool where
  "cleanPool =
     \<lparr>poolKey = ''pool-b'', poolVersion = 0,
      Allocations = [\<lparr>IP = ''10.0.2.1'', PodRef = ''ns/podA''\<rparr>]\<rparr>"

definition twinPool :: IPPool where
  "twinPool =
     \<lparr>poolKey = ''pool-c'', poolVersion = 0,
      Allocations = [\<lparr>IP = ''10.0.1.1'', PodRef = ''ns/podA''\<rparr>,
                     \<lparr>IP = ''10.0.1.2'', PodRef = ''ns/podB''\<rparr>,
                     \<lparr>IP = ''10.0.1.3'', PodRef = ''ns/podB''\<rparr>]\<rparr>"

definition twinCluster :: Cluster where
  "twinCluster =
     \<lparr>clusterPods = [\<lparr>podNamespace = ''ns'', podName = ''podA''\<rparr>],
      clusterPools = [cleanPool, twinPool]\<rparr>"

text \<open>Scenario B: a reservation without a pod reference and no live pod; the
  pool holds an orphan as well, so that it is written.\<close>

definition anomalyPool :: IPPool where
  "anomalyPool =
     \<lparr>poolKey = ''pool-d'', poolVersion = 0,
      Allocations = [\<lparr>IP = ''10.0.0.5'', PodRef = ''''\<rparr>,
                     \<lparr>IP = ''10.0.0.6'', PodRef = ''ns/podB''\<rparr>]\<rparr>"

definition anomalyCluster :: Cluster where
  "anomalyCluster = \<lparr>clusterPods = [], clusterPools = [anomalyPool]\<rparr>"

text \<open>The loopers that \<^verbatim>\<open>NewReconcileLooper\<close> builds on the three clusters above.\<close>

definition scenarioLooper :: "Cluster ReconcileLooper" where
  "scenarioLooper =
     \<lparr>k8sClient = clusterClient,
      livePodRefs = [''ns/podA'', ''ns/podC''],
      orphanedIPs =
        [\<lparr>Pool = scenarioPool,
          OrphanedAllocations = [\<lparr>IP = ''10.0.0.2'', PodRef = ''ns/podB''\<rparr>]\<rparr>]\<rparr>"

definition twinLooper :: "Cluster ReconcileLooper" where
  "twinLooper =
     \<lparr>k8sClient = clusterClient,
      livePodRefs = [''ns/podA''],
      orphanedIPs =
        [\<lparr>Pool = twinPool,
          OrphanedAllocations = [\<lparr>IP = ''10.0.1.2'', PodRef = ''ns/podB''\<rparr>,
                                 \<lparr>IP = ''10.0.1.3'', PodRef = ''ns/podB''\<rparr>]\<rparr>]\<rparr>"

definition anomalyLooper :: "Cluster ReconcileLooper" where
  "anomalyLooper =
     \<lparr>k8sClient = clusterClient,
      livePodRefs = [],
      orphanedIPs =
        [\<lparr>Pool = anomalyPool,
          OrphanedAllocations = [\<lparr>IP = ''10.0.0.6'', PodRef = ''ns/podB''\<rparr>]\<rparr>]\<rparr>"

text \<open>The world after a pass over scenario A, begun in a fresh world.\<close>

definition scenarioAfter :: "Cluster world" where
  "scenarioAfter =
     \<lparr>cluster = scenarioCluster\<lparr>clusterPools :=
          [scenarioPool\<lparr>poolVersion := 1,
             Allocations := [\<lparr>IP = ''10.0.0.1'', PodRef = ''ns/podA''\<rparr>,
                             \<lparr>IP = ''10.0.0.3'', PodRef = ''ns/podC''\<rparr>]\<rparr>]\<rparr>,
      errorLog = [], deallocCalls = [''ns/podB''],
      updateCalls = [(scenarioPool, [\<lparr>IP = ''10.0.0.1'', PodRef = ''ns/podA''\<rparr>,
                                     \<lparr>IP = ''10.0.0.3'', PodRef = ''ns/podC''\<rparr>])]\<rparr>"

text \<open>Scenario D: the looper has read two pools; before it writes, another
  writer has changed the second one in the store, which is now at a later version.\<close>

definition racedLooper :: "Cluster ReconcileLooper" where
  "racedLooper =
     \<lparr>k8sClient = clusterClient,
      livePodRefs = [''ns/podA'', ''ns/podC''],
      orphanedIPs =
        [\<lparr>Pool = scenarioPool,
          OrphanedAllocations = [\<lparr>IP = ''10.0.0.2'', PodRef = ''ns/podB''\<rparr>]\<rparr>,
         \<lparr>Pool = twinPool,
          OrphanedAllocations = [\<lparr>IP = ''10.0.1.2'', PodRef = ''ns/podB''\<rparr>,
                                 \<lparr>IP = ''10.0.1.3'', PodRef = ''ns/podB''\<rparr>]\<rparr>]\<rparr>"

definition racedTwinPool :: IPPool where
  "racedTwinPool =
     twinPool\<lparr>poolVersion := 1,
              Allocations := Allocations twinPool @
                               [\<lparr>IP = ''10.0.1.4'', PodRef = ''ns/podC''\<rparr>]\<rparr>"

definition racedCluster :: Cluster where
  "racedCluster =
     \<lparr>clusterPods = [\<lparr>podNamespace = ''ns'', podName = ''podA''\<rparr>,
                      \<lparr>podNamespace = ''ns'', podName = ''podC''\<rparr>],
      clusterPools = [scenarioPool, racedTwinPool]\<rparr>"

text \<open>The world once the first of the two pools is written.\<close>

definition racedCommitted :: "Cluster world" where
  "racedCommitted =
     \<lparr>cluster = racedCluster\<lparr>clusterPools :=
          [scenarioPool\<lparr>poolVersion := 1,
             Allocations := [\<lparr>IP = ''10.0.0.1'', PodRef = ''ns/podA''\<rparr>,
                             \<lparr>IP = ''10.0.0.3'', PodRef = ''ns/podC''\<rparr>]\<rparr>,
           racedTwinPool]\<rparr>,
      errorLog = [], deallocCalls = [''ns/podB''],
      updateCalls = [(scenarioPool, [\<lparr>IP = ''10.0.0.1'', PodRef = ''ns/podA''\<rparr>,
                                     \<lparr>IP = ''10.0.0.3'', PodRef = ''ns/podC''\<rparr>])]\<rparr>"

text \<open>A looper whose second orphan group names a pod reference that the pool
  it holds does not contain; it runs against the same store.\<close>

definition lostLooper :: "Cluster ReconcileLooper" where
  "lostLooper =
     \<lparr>k8sClient = clusterClient,
      livePodRefs = [''ns/podA'', ''ns/podC''],
      orphanedIPs =
        [\<lparr>Pool = scenarioPool,
          OrphanedAllocations = [\<lparr>IP = ''10.0.0.2'', PodRef = ''ns/podB''\<rparr>]\<rparr>,
         \<lparr>Pool = twinPool,
          OrphanedAllocations = [\<lparr>IP = ''10.0.1.2'', PodRef = ''ns/podB''\<rparr>,
                                 \<lparr>IP = ''10.0.1.9'', PodRef = ''ns/podZ''\<rparr>]\<rparr>]\<rparr>"

text \<open>The design document's orphan: a reservation whose owner is not empty and
  is absent from the live set.\<close>

abbreviation orphaned :: "string list \<Rightarrow> IPReservation \<Rightarrow> bool" where
  "orphaned live r \<equiv> PodRef r \<noteq> '''' \<and> PodRef r \<notin> set live"

section \<open>What the loops compute\<close>

text \<open>Each loop of the source is characterised once, by the list function it
  amounts to; the properties below are proved from these equations.\<close>

lemma isPodAliveLoop_iff: "isPodAliveLoop live podRef \<longleftrightarrow> podRef \<in> set live"
  by (induction live) auto

lemma isPodAlive_iff: "isPodAlive rl podRef \<longleftrightarrow> podRef \<in> set (livePodRefs rl)"
  by (simp add: isPodAlive_def isPodAliveLoop_iff)

lemma podRefsLoop_eq:
  "podRefsLoop pods acc = acc @ map (\<lambda>pod. podNamespace pod @ ''/'' @ podName pod) pods"
  by (induction pods arbitrary: acc) auto

lemma scanAllocations_eq:
  "scanAllocations rl as orphanIP w =
     (w\<lparr>errorLog := errorLog w @ map PodRefMissing (filter (\<lambda>a. PodRef a = '''') as)\<rparr>,
      orphanIP\<lparr>OrphanedAllocations := OrphanedAllocations orphanIP @
         filter (\<lambda>a. PodRef a \<noteq> '''' \<and> PodRef a \<notin> set (livePodRefs rl)) as\<rparr>)"
  by (induction as arbitrary: orphanIP w) (simp_all add: isPodAlive_iff Errorf_def)

lemma podRefsToDeallocateLoop_eq:
  "podRefsToDeallocateLoop xs acc = acc @ map PodRef xs"
  by (induction xs arbitrary: acc) auto

lemma ledgerLoop_eq:
  "ledgerLoop rs ledger k = (if k \<in> IP ` set rs then Some True else ledger k)"
  by (induction rs arbitrary: ledger) auto

lemma deletedLoop_eq:
  "deletedLoop rs ledger acc = acc @ filter (\<lambda>r. ledger (IP r) = None) rs"
  by (induction rs arbitrary: acc) (auto split: option.splits)

lemma computeCleanedUpIPs_eq:
  "computeCleanedUpIPs old new = filter (\<lambda>r. IP r \<notin> IP ` set new) old"
  by (simp add: computeCleanedUpIPs_def deletedLoop_eq ledgerLoop_eq)

lemma matchByPodRefLoop_eq:
  "matchByPodRefLoop idx rs podRef =
     (if podRef \<in> PodRef ` set rs
      then idx + int (length (takeWhile (\<lambda>r. PodRef r \<noteq> podRef) rs)) else - 1)"
  by (induction rs arbitrary: idx) auto

lemma IterateForDeallocation_Nil:
  "IterateForDeallocation [] podRef matchByPodRef = Inl (OwnerNotFound podRef)"
  by (simp add: IterateForDeallocation_def matchByPodRef_def)

lemma IterateForDeallocation_Cons:
  "IterateForDeallocation (x # xs) podRef matchByPodRef =
     (if PodRef x = podRef then Inr (xs, x)
      else (case IterateForDeallocation xs podRef matchByPodRef of
              Inl err \<Rightarrow> Inl err
            | Inr (updated, removed) \<Rightarrow> Inr (x # updated, removed)))"
proof (cases "podRef \<in> PodRef ` set xs")
  case True
  then have "length (takeWhile (\<lambda>r. PodRef r \<noteq> podRef) xs) < length xs"
    by (induction xs) auto
  with True show ?thesis
    by (auto simp: IterateForDeallocation_def matchByPodRef_def matchByPodRefLoop_eq Let_def nat_add_distrib)
next
  case False
  then show ?thesis
    by (auto simp: IterateForDeallocation_def matchByPodRef_def matchByPodRefLoop_eq Let_def)
qed

lemma deallocateLoop_skip:
  "PodRef x \<notin> set targets \<Longrightarrow>
   deallocateLoop w (x # xs) targets =
     (case deallocateLoop w xs targets of
        (w', Inl err) \<Rightarrow> (w', Inl err)
      | (w', Inr updated) \<Rightarrow> (w', Inr (x # updated)))"
proof (induction targets arbitrary: w xs)
  case Nil
  then show ?case by simp
next
  case (Cons t targets)
  then show ?case
    by (auto simp: IterateForDeallocation_Cons split: sum.splits prod.splits)
qed

lemma deallocateLoop_orphans:
  "deallocateLoop w xs (map PodRef (filter (\<lambda>r. P (PodRef r)) xs)) =
     (w\<lparr>deallocCalls := deallocCalls w @ map PodRef (filter (\<lambda>r. P (PodRef r)) xs)\<rparr>,
      Inr (filter (\<lambda>r. \<not> P (PodRef r)) xs))"
proof (induction xs arbitrary: w)
  case Nil
  then show ?case by simp
next
  case (Cons x xs)
  show ?case
  proof (cases "P (PodRef x)")
    case True
    then show ?thesis
      by (simp add: IterateForDeallocation_Cons Cons.IH)
  next
    case False
    then have "PodRef x \<notin> set (map PodRef (filter (\<lambda>r. P (PodRef r)) xs))"
      by auto
    then show ?thesis using False
      by (simp add: deallocateLoop_skip Cons.IH)
  qed
qed

lemma scanPools_eq:
  "scanPools pools rl w =
     (w\<lparr>errorLog := errorLog w @
          map PodRefMissing (concat (map (\<lambda>p. filter (\<lambda>a. PodRef a = '''') (Allocations p)) pools))\<rparr>,
      rl\<lparr>orphanedIPs := orphanedIPs rl @
          map (\<lambda>p. \<lparr>Pool = p, OrphanedAllocations =
                    filter (\<lambda>a. PodRef a \<noteq> '''' \<and> PodRef a \<notin> set (livePodRefs rl)) (Allocations p)\<rparr>)
              (filter (\<lambda>p. \<exists>a\<in>set (Allocations p). PodRef a \<noteq> '''' \<and> PodRef a \<notin> set (livePodRefs rl)) pools)\<rparr>)"
proof (induction pools arbitrary: rl w)
  case Nil
  then show ?case by simp
next
  case (Cons p pools)
  show ?case
    by (simp add: scanAllocations_eq Cons.IH filter_empty_conv)
qed

lemma findOrphanedIPsPerPool_eq:
  assumes "ListIPPools (k8sClient rl) (cluster w) = Inr pools"
    and "P = (\<lambda>q. q \<noteq> '''' \<and> q \<notin> set (livePodRefs rl))"
  shows "findOrphanedIPsPerPool rl w =
     (w\<lparr>errorLog := errorLog w @
          map PodRefMissing (concat (map (\<lambda>p. filter (\<lambda>a. PodRef a = '''') (Allocations p)) pools))\<rparr>,
      rl\<lparr>orphanedIPs := orphanedIPs rl @
          map (\<lambda>p. \<lparr>Pool = p, OrphanedAllocations = filter (\<lambda>r. P (PodRef r)) (Allocations p)\<rparr>)
              (filter (\<lambda>p. \<exists>r\<in>set (Allocations p). P (PodRef r)) pools)\<rparr>,
      None)"
  using assms by (simp add: findOrphanedIPsPerPool_def scanPools_eq)

lemma reconcileLoop_group:
  "reconcileLoop rl (\<lparr>Pool = p, OrphanedAllocations = filter (\<lambda>r. P (PodRef r)) (Allocations p)\<rparr> # gs) acc w =
     (case PoolUpdate (k8sClient rl)
             (w\<lparr>deallocCalls := deallocCalls w @ map PodRef (filter (\<lambda>r. P (PodRef r)) (Allocations p))\<rparr>)
             p (filter (\<lambda>r. \<not> P (PodRef r)) (Allocations p)) of
        (w2, Some err) \<Rightarrow> (Errorf (UpdateFailed err) w2, [], Some (UpdateFailed err))
      | (w2, None) \<Rightarrow>
          reconcileLoop rl gs
            (acc @ computeCleanedUpIPs (Allocations p) (filter (\<lambda>r. \<not> P (PodRef r)) (Allocations p))) w2)"
  by (simp add: findOutPodRefsToDeallocateIPsFrom_def podRefsToDeallocateLoop_eq
        deallocateLoop_orphans)

lemma reconcileLoop_groups_calls:
  "reconcileLoop rl
     (map (\<lambda>p. \<lparr>Pool = p, OrphanedAllocations = filter (\<lambda>r. P (PodRef r)) (Allocations p)\<rparr>) ps)
     acc w = (w', report, err) \<Longrightarrow>
   \<exists>n. updateCalls w' =
         updateCalls w @ map (\<lambda>p. (p, filter (\<lambda>r. \<not> P (PodRef r)) (Allocations p))) (take n ps) \<and>
       (err = None \<longrightarrow> n = length ps)"
proof (induction ps arbitrary: acc w)
  case Nil
  then show ?case by simp
next
  case (Cons p ps)
  let ?kept = "filter (\<lambda>r. \<not> P (PodRef r)) (Allocations p)"
  let ?calls = "\<lambda>n qs. map (\<lambda>p. (p, filter (\<lambda>r. \<not> P (PodRef r)) (Allocations p))) (take n qs)"
  show ?case
  proof (cases "UpdatePool (k8sClient rl) (cluster w) p ?kept")
    case (Inl e)
    with Cons.prems have "updateCalls w' = updateCalls w @ [(p, ?kept)]" "err \<noteq> None"
      by (auto simp: reconcileLoop_group PoolUpdate_def Errorf_def simp del: reconcileLoop.simps(2))
    then have "updateCalls w' = updateCalls w @ ?calls 1 (p # ps) \<and>
       (err = None \<longrightarrow> 1 = length (p # ps))" by auto
    then show ?thesis by blast
  next
    case (Inr st)
    let ?w2 = "w\<lparr>deallocCalls := deallocCalls w @ map PodRef (filter (\<lambda>r. P (PodRef r)) (Allocations p)),
                 cluster := st, updateCalls := updateCalls w @ [(p, ?kept)]\<rparr>"
    from Cons.prems Inr have "reconcileLoop rl
        (map (\<lambda>p. \<lparr>Pool = p, OrphanedAllocations = filter (\<lambda>r. P (PodRef r)) (Allocations p)\<rparr>) ps)
        (acc @ computeCleanedUpIPs (Allocations p) ?kept) ?w2 = (w', report, err)"
      by (simp add: reconcileLoop_group PoolUpdate_def del: reconcileLoop.simps(2))
    from Cons.IH [OF this] obtain n where
      "updateCalls w' = updateCalls ?w2 @ ?calls n ps"
      "err = None \<longrightarrow> n = length ps" by blast
    then have "updateCalls w' = updateCalls w @ ?calls (Suc n) (p # ps) \<and>
       (err = None \<longrightarrow> Suc n = length (p # ps))" by simp
    then show ?thesis by blast
  qed
qed

lemma reconcileLoop_groups_report:
  "reconcileLoop rl
     (map (\<lambda>p. \<lparr>Pool = p, OrphanedAllocations = filter (\<lambda>r. P (PodRef r)) (Allocations p)\<rparr>) ps)
     acc w = (w', report, None) \<Longrightarrow>
   report = acc @ concat (map (\<lambda>p. computeCleanedUpIPs (Allocations p)
                                    (filter (\<lambda>r. \<not> P (PodRef r)) (Allocations p))) ps)"
proof (induction ps arbitrary: acc w)
  case Nil
  then show ?case by simp
next
  case (Cons p ps)
  let ?kept = "filter (\<lambda>r. \<not> P (PodRef r)) (Allocations p)"
  show ?case
  proof (cases "UpdatePool (k8sClient rl) (cluster w) p ?kept")
    case (Inl e)
    with Cons.prems show ?thesis
      by (simp add: reconcileLoop_group PoolUpdate_def del: reconcileLoop.simps(2))
  next
    case (Inr st)
    with Cons.prems obtain w2 where "reconcileLoop rl
        (map (\<lambda>p. \<lparr>Pool = p, OrphanedAllocations = filter (\<lambda>r. P (PodRef r)) (Allocations p)\<rparr>) ps)
        (acc @ computeCleanedUpIPs (Allocations p) ?kept) w2 = (w', report, None)"
      by (simp add: reconcileLoop_group PoolUpdate_def del: reconcileLoop.simps(2))
    from Cons.IH [OF this] show ?thesis by simp
  qed
qed

lemma reconcileLoop_error_nil:
  "reconcileLoop rl gs acc w = (w', report, Some err) \<Longrightarrow> report = []"
  by (induction gs arbitrary: acc w)
     (auto simp: Let_def split: prod.splits sum.splits option.splits)


lemma NewReconcileLooper_Inr:
  assumes "NewReconcileLooper (Inr client) w = (w1, Inr rl)"
    and "ListIPPools client (cluster w) = Inr pools"
    and "P = (\<lambda>q. q \<noteq> '''' \<and> q \<notin> set (livePodRefs rl))"
  shows "k8sClient rl = client"
    and "orphanedIPs rl =
          map (\<lambda>p. \<lparr>Pool = p, OrphanedAllocations = filter (\<lambda>r. P (PodRef r)) (Allocations p)\<rparr>)
              (filter (\<lambda>p. \<exists>r\<in>set (Allocations p). P (PodRef r)) pools)"
    and "w1 = w\<lparr>errorLog := errorLog w @
          map PodRefMissing (concat (map (\<lambda>p. filter (\<lambda>a. PodRef a = '''') (Allocations p)) pools))\<rparr>"
proof -
  from assms(1) obtain live where live: "getPodRefs client w = Inr live"
    by (auto simp: NewReconcileLooper_def split: sum.splits)
  let ?rl0 = "\<lparr>k8sClient = client, livePodRefs = live, orphanedIPs = []\<rparr>"
  have eq: "findOrphanedIPsPerPool ?rl0 w =
     (w\<lparr>errorLog := errorLog w @
          map PodRefMissing (concat (map (\<lambda>p. filter (\<lambda>a. PodRef a = '''') (Allocations p)) pools))\<rparr>,
      ?rl0\<lparr>orphanedIPs := orphanedIPs ?rl0 @
          map (\<lambda>p. \<lparr>Pool = p, OrphanedAllocations =
                      filter (\<lambda>r. PodRef r \<noteq> '''' \<and> PodRef r \<notin> set live) (Allocations p)\<rparr>)
              (filter (\<lambda>p. \<exists>r\<in>set (Allocations p). PodRef r \<noteq> '''' \<and> PodRef r \<notin> set live) pools)\<rparr>,
      None)"
    using assms(2) by (intro findOrphanedIPsPerPool_eq) simp_all
  from assms(1) live eq have rl: "rl = ?rl0\<lparr>orphanedIPs := orphanedIPs ?rl0 @
          map (\<lambda>p. \<lparr>Pool = p, OrphanedAllocations =
                      filter (\<lambda>r. PodRef r \<noteq> '''' \<and> PodRef r \<notin> set live) (Allocations p)\<rparr>)
              (filter (\<lambda>p. \<exists>r\<in>set (Allocations p). PodRef r \<noteq> '''' \<and> PodRef r \<notin> set live) pools)\<rparr>"
    and w1: "w1 = w\<lparr>errorLog := errorLog w @
          map PodRefMissing (concat (map (\<lambda>p. filter (\<lambda>a. PodRef a = '''') (Allocations p)) pools))\<rparr>"
    by (simp_all add: NewReconcileLooper_def)
  from rl show "k8sClient rl = client" by simp
  from rl have "livePodRefs rl = live" by simp
  with rl assms(3) show "orphanedIPs rl =
          map (\<lambda>p. \<lparr>Pool = p, OrphanedAllocations = filter (\<lambda>r. P (PodRef r)) (Allocations p)\<rparr>)
              (filter (\<lambda>p. \<exists>r\<in>set (Allocations p). P (PodRef r)) pools)"
    by simp
  from w1 show "w1 = w\<lparr>errorLog := errorLog w @
          map PodRefMissing (concat (map (\<lambda>p. filter (\<lambda>a. PodRef a = '''') (Allocations p)) pools))\<rparr>" .
qed

lemma scenarioA_run:
  "reconcile (Inr clusterClient) (freshWorld scenarioCluster) =
     (\<lparr>cluster = scenarioCluster\<lparr>clusterPools :=
          [scenarioPool\<lparr>poolVersion := 1,
             Allocations := [\<lparr>IP = ''10.0.0.1'', PodRef = ''ns/podA''\<rparr>,
                             \<lparr>IP = ''10.0.0.3'', PodRef = ''ns/podC''\<rparr>]\<rparr>]\<rparr>,
       errorLog = [], deallocCalls = [''ns/podB''],
       updateCalls = [(scenarioPool, [\<lparr>IP = ''10.0.0.1'', PodRef = ''ns/podA''\<rparr>,
                                      \<lparr>IP = ''10.0.0.3'', PodRef = ''ns/podC''\<rparr>])]\<rparr>,
      [\<lparr>IP = ''10.0.0.2'', PodRef = ''ns/podB''\<rparr>], None)"
  by (simp add: reconcile_def NewReconcileLooper_def getPodRefs_def findOrphanedIPsPerPool_def
        clusterClient_def ReconcileIPPools_def IterateForDeallocation_def matchByPodRef_def
        computeCleanedUpIPs_def PoolUpdate_def clusterUpdate_def freshWorld_def Errorf_def
        isPodAlive_def findOutPodRefsToDeallocateIPsFrom_def
        scenarioCluster_def scenarioPool_def Let_def)

lemma pass_update_calls:
  assumes "NewReconcileLooper (Inr client) w = (w1, Inr rl)"
    and "ListIPPools client (cluster w) = Inr pools"
    and "ReconcileIPPools rl w1 = (w2, report, err)"
  shows "\<exists>n. updateCalls w2 =
           updateCalls w1 @
           map (\<lambda>p. (p, filter (\<lambda>r. \<not> orphaned (livePodRefs rl) r) (Allocations p)))
               (take n (filter (\<lambda>p. \<exists>r\<in>set (Allocations p). orphaned (livePodRefs rl) r) pools)) \<and>
           (err = None \<longrightarrow>
              n = length (filter (\<lambda>p. \<exists>r\<in>set (Allocations p). orphaned (livePodRefs rl) r) pools))"
proof -
  define P where "P = (\<lambda>q. q \<noteq> '''' \<and> q \<notin> set (livePodRefs rl))"
  let ?has = "\<lambda>p. \<exists>r\<in>set (Allocations p). P (PodRef r)"
  let ?orph = "\<lambda>p. filter (\<lambda>r. P (PodRef r)) (Allocations p)"
  have "orphanedIPs rl =
      map (\<lambda>p. \<lparr>Pool = p, OrphanedAllocations = ?orph p\<rparr>) (filter ?has pools)"
    using NewReconcileLooper_Inr(2) [OF assms(1,2) P_def] .
  with assms(3) have loop: "reconcileLoop rl
      (map (\<lambda>p. \<lparr>Pool = p, OrphanedAllocations = ?orph p\<rparr>) (filter ?has pools)) [] w1 =
      (w2, report, err)"
    by (simp add: ReconcileIPPools_def)
  from reconcileLoop_groups_calls [OF loop] show ?thesis
    unfolding P_def by simp
qed

lemma pass_report:
  assumes "NewReconcileLooper (Inr client) w = (w1, Inr rl)"
    and "ListIPPools client (cluster w) = Inr pools"
    and "ReconcileIPPools rl w1 = (w2, report, err)"
  shows "set report \<subseteq>
           (\<Union>p\<in>set pools. set (computeCleanedUpIPs (Allocations p)
              (filter (\<lambda>r. \<not> orphaned (livePodRefs rl) r) (Allocations p))))"
proof (cases err)
  case (Some e)
  with assms(3) have "report = []"
    by (auto simp: ReconcileIPPools_def dest: reconcileLoop_error_nil)
  then show ?thesis by simp
next
  case None
  define P where "P = (\<lambda>q. q \<noteq> '''' \<and> q \<notin> set (livePodRefs rl))"
  let ?has = "\<lambda>p. \<exists>r\<in>set (Allocations p). P (PodRef r)"
  let ?orph = "\<lambda>p. filter (\<lambda>r. P (PodRef r)) (Allocations p)"
  have "orphanedIPs rl =
      map (\<lambda>p. \<lparr>Pool = p, OrphanedAllocations = ?orph p\<rparr>) (filter ?has pools)"
    using NewReconcileLooper_Inr(2) [OF assms(1,2) P_def] .
  with assms(3) None have loop: "reconcileLoop rl
      (map (\<lambda>p. \<lparr>Pool = p, OrphanedAllocations = ?orph p\<rparr>) (filter ?has pools)) [] w1 =
      (w2, report, None)"
    by (simp add: ReconcileIPPools_def)
  from reconcileLoop_groups_report [OF loop]
  have "set report \<subseteq> (\<Union>p\<in>set pools. set (computeCleanedUpIPs (Allocations p)
              (filter (\<lambda>r. \<not> P (PodRef r)) (Allocations p))))"
    by auto
  then show ?thesis unfolding P_def by simp
qed

text \<open>The definitions a concrete run unfolds.\<close>

lemmas run_defs =
  reconcile_def NewReconcileLooper_def getPodRefs_def findOrphanedIPsPerPool_def
  clusterClient_def ReconcileIPPools_def IterateForDeallocation_def matchByPodRef_def
  computeCleanedUpIPs_def PoolUpdate_def clusterUpdate_def freshWorld_def Errorf_def
  isPodAlive_def findOutPodRefsToDeallocateIPsFrom_def Let_def

section \<open>The claims of the design document\<close>

subsection \<open>C1: exactly the orphans are removed\<close>



subsection \<open>C2: reservations of live pods stay\<close>

text \<open>
  Claim C2. In every pass, whether it ends in an error or not, each list handed to
  \<^verbatim>\<open>Pool.Update\<close> holds the reservations of the pool whose pod reference is in
  the live list, all of them, unchanged and in their order; and no reservation
  with a live pod reference is in the list the pass returns.
\<close>

theorem live_reservations_survive:
  assumes "NewReconcileLooper (Inr client) w = (w1, Inr rl)"
    and "ListIPPools client (cluster w) = Inr pools"
    and "ReconcileIPPools rl w1 = (w2, report, err)"
  shows "(\<forall>(pool, committed) \<in> set (drop (length (updateCalls w1)) (updateCalls w2)).
            pool \<in> set pools \<and>
            filter (\<lambda>r. PodRef r \<in> set (livePodRefs rl)) committed =
            filter (\<lambda>r. PodRef r \<in> set (livePodRefs rl)) (Allocations pool)) \<and>
         (\<forall>r\<in>set report. PodRef r \<notin> set (livePodRefs rl))"
proof -
  from pass_update_calls [OF assms] obtain n where
    "updateCalls w2 = updateCalls w1 @
           map (\<lambda>p. (p, filter (\<lambda>r. \<not> orphaned (livePodRefs rl) r) (Allocations p)))
               (take n (filter (\<lambda>p. \<exists>r\<in>set (Allocations p). orphaned (livePodRefs rl) r) pools))"
    by blast
  then have calls: "drop (length (updateCalls w1)) (updateCalls w2) =
           map (\<lambda>p. (p, filter (\<lambda>r. \<not> orphaned (livePodRefs rl) r) (Allocations p)))
               (take n (filter (\<lambda>p. \<exists>r\<in>set (Allocations p). orphaned (livePodRefs rl) r) pools))"
    by simp
  have kept: "filter (\<lambda>r. PodRef r \<in> set (livePodRefs rl))
                (filter (\<lambda>r. \<not> orphaned (livePodRefs rl) r) xs) =
              filter (\<lambda>r. PodRef r \<in> set (livePodRefs rl)) xs" for xs
    by (induction xs) auto
  have one: "\<forall>(pool, committed) \<in> set (drop (length (updateCalls w1)) (updateCalls w2)).
            pool \<in> set pools \<and>
            filter (\<lambda>r. PodRef r \<in> set (livePodRefs rl)) committed =
            filter (\<lambda>r. PodRef r \<in> set (livePodRefs rl)) (Allocations pool)"
    unfolding calls using kept by (auto dest: in_set_takeD)
  have two: "\<forall>r\<in>set report. PodRef r \<notin> set (livePodRefs rl)"
    using pass_report [OF assms] by (auto simp: computeCleanedUpIPs_eq)
  from one two show ?thesis by blast
qed

text \<open>The theorem on the cluster with a clean pool and a pool with two orphans.\<close>

theorem live_reservations_survive_witness:
  "NewReconcileLooper (Inr clusterClient) (freshWorld twinCluster) =
     (freshWorld twinCluster, Inr twinLooper) \<and>
   ListIPPools clusterClient (cluster (freshWorld twinCluster)) = Inr [cleanPool, twinPool] \<and>
   ReconcileIPPools twinLooper (freshWorld twinCluster) =
     (\<lparr>cluster = twinCluster\<lparr>clusterPools :=
          [cleanPool,
           twinPool\<lparr>poolVersion := 1,
             Allocations := [\<lparr>IP = ''10.0.1.1'', PodRef = ''ns/podA''\<rparr>]\<rparr>]\<rparr>,
       errorLog = [], deallocCalls = [''ns/podB'', ''ns/podB''],
       updateCalls = [(twinPool, [\<lparr>IP = ''10.0.1.1'', PodRef = ''ns/podA''\<rparr>])]\<rparr>,
      [\<lparr>IP = ''10.0.1.2'', PodRef = ''ns/podB''\<rparr>,
       \<lparr>IP = ''10.0.1.3'', PodRef = ''ns/podB''\<rparr>], None) \<and>
   twinPool \<in> set [cleanPool, twinPool] \<and>
   filter (\<lambda>r. PodRef r \<in> set (livePodRefs twinLooper))
     [\<lparr>IP = ''10.0.1.1'', PodRef = ''ns/podA''\<rparr>] =
   filter (\<lambda>r. PodRef r \<in> set (livePodRefs twinLooper)) (Allocations twinPool) \<and>
   ''ns/podB'' \<notin> set (livePodRefs twinLooper)"
proof -
  have h1: "NewReconcileLooper (Inr clusterClient) (freshWorld twinCluster) =
     (freshWorld twinCluster, Inr twinLooper)"
    by (simp add: run_defs twinCluster_def twinPool_def cleanPool_def twinLooper_def)
  have h2: "ListIPPools clusterClient (cluster (freshWorld twinCluster)) = Inr [cleanPool, twinPool]"
    by (simp add: run_defs twinCluster_def)
  have h3: "ReconcileIPPools twinLooper (freshWorld twinCluster) =
     (\<lparr>cluster = twinCluster\<lparr>clusterPools :=
          [cleanPool,
           twinPool\<lparr>poolVersion := 1,
             Allocations := [\<lparr>IP = ''10.0.1.1'', PodRef = ''ns/podA''\<rparr>]\<rparr>]\<rparr>,
       errorLog = [], deallocCalls = [''ns/podB'', ''ns/podB''],
       updateCalls = [(twinPool, [\<lparr>IP = ''10.0.1.1'', PodRef = ''ns/podA''\<rparr>])]\<rparr>,
      [\<lparr>IP = ''10.0.1.2'', PodRef = ''ns/podB''\<rparr>,
       \<lparr>IP = ''10.0.1.3'', PodRef = ''ns/podB''\<rparr>], None)"
    by (simp add: run_defs twinCluster_def twinPool_def cleanPool_def twinLooper_def)
  from live_reservations_survive [OF h1 h2 h3] h1 h2 h3
  show ?thesis by (simp add: freshWorld_def)
qed

subsection \<open>C8: the match function\<close>

text \<open>
  Claim C8. \<^verbatim>\<open>matchByPodRef\<close>, the match function handed to the deallocation
  primitive, returns \<open>-1\<close> when no reservation of the list has the given pod
  reference, and otherwise the index of the first reservation that has it: the
  index is within the list, the reservation there has the pod reference, and none
  before it has.
\<close>

theorem matchByPodRef_first_match:
  "(podRef \<notin> PodRef ` set reservations \<longrightarrow> matchByPodRef reservations podRef = - 1) \<and>
   (podRef \<in> PodRef ` set reservations \<longrightarrow>
      0 \<le> matchByPodRef reservations podRef \<and>
      nat (matchByPodRef reservations podRef) < length reservations \<and>
      PodRef (reservations ! nat (matchByPodRef reservations podRef)) = podRef \<and>
      (\<forall>j < nat (matchByPodRef reservations podRef). PodRef (reservations ! j) \<noteq> podRef))"
proof (cases "podRef \<in> PodRef ` set reservations")
  case False
  then show ?thesis
    by (simp add: matchByPodRef_def matchByPodRefLoop_eq)
next
  case True
  let ?n = "length (takeWhile (\<lambda>r. PodRef r \<noteq> podRef) reservations)"
  have idx: "matchByPodRef reservations podRef = int ?n"
    using True by (simp add: matchByPodRef_def matchByPodRefLoop_eq)
  have lt: "?n < length reservations"
    using True by (induction reservations) auto
  have hit: "PodRef (reservations ! ?n) = podRef"
    using nth_length_takeWhile [OF lt] by simp
  have before: "\<forall>j < ?n. PodRef (reservations ! j) \<noteq> podRef"
  proof (intro allI impI)
    fix j assume j: "j < ?n"
    then have "takeWhile (\<lambda>r. PodRef r \<noteq> podRef) reservations ! j \<in>
        set (takeWhile (\<lambda>r. PodRef r \<noteq> podRef) reservations)"
      by simp
    then have "PodRef (takeWhile (\<lambda>r. PodRef r \<noteq> podRef) reservations ! j) \<noteq> podRef"
      by (blast dest: set_takeWhileD)
    then show "PodRef (reservations ! j) \<noteq> podRef"
      using j by (simp add: takeWhile_nth)
  qed
  from True idx lt hit before show ?thesis by simp
qed

text \<open>The theorem on a list where the pod reference occurs twice, and for a
  pod reference that does not occur.\<close>

theorem matchByPodRef_first_match_witness:
  "''ns/podB'' \<in> PodRef ` set (Allocations twinPool) \<and>
   matchByPodRef (Allocations twinPool) ''ns/podB'' = 1 \<and>
   PodRef (Allocations twinPool ! 1) = ''ns/podB'' \<and>
   PodRef (Allocations twinPool ! 0) \<noteq> ''ns/podB'' \<and>
   ''ns/podZ'' \<notin> PodRef ` set (Allocations twinPool) \<and>
   matchByPodRef (Allocations twinPool) ''ns/podZ'' = - 1"
proof -
  have m: "matchByPodRef (Allocations twinPool) ''ns/podB'' = 1"
    by (simp add: matchByPodRef_def twinPool_def)
  have h1: "''ns/podB'' \<in> PodRef ` set (Allocations twinPool)"
    by (simp add: twinPool_def)
  have h2: "''ns/podZ'' \<notin> PodRef ` set (Allocations twinPool)"
    by (simp add: twinPool_def)
  from matchByPodRef_first_match [of "''ns/podB''" "Allocations twinPool"]
    matchByPodRef_first_match [of "''ns/podZ''" "Allocations twinPool"] m h1 h2
  show ?thesis by simp
qed

subsection \<open>C3: reservations without a pod reference\<close>

text \<open>
  Claim C3. Whatever the live list, a reservation with an empty pod reference is
  written to the error log when the looper is built (one entry for each, in scan
  order), is in no orphan group, is in every list handed to \<^verbatim>\<open>Pool.Update\<close> for
  its pool, and is not in the list the pass returns.
\<close>

theorem empty_owner_never_removed:
  assumes "NewReconcileLooper (Inr client) w = (w1, Inr rl)"
    and "ListIPPools client (cluster w) = Inr pools"
    and "ReconcileIPPools rl w1 = (w2, report, err)"
  shows "errorLog w1 =
           errorLog w @
           map PodRefMissing
             (concat (map (\<lambda>p. filter (\<lambda>r. PodRef r = '''') (Allocations p)) pools)) \<and>
         (\<forall>orphanedIP\<in>set (orphanedIPs rl).
            \<forall>r\<in>set (OrphanedAllocations orphanedIP). PodRef r \<noteq> '''') \<and>
         (\<forall>(pool, committed) \<in> set (drop (length (updateCalls w1)) (updateCalls w2)).
            pool \<in> set pools \<and>
            filter (\<lambda>r. PodRef r = '''') committed =
            filter (\<lambda>r. PodRef r = '''') (Allocations pool)) \<and>
         (\<forall>r\<in>set report. PodRef r \<noteq> '''')"
proof -
  define P where "P = (\<lambda>q. q \<noteq> '''' \<and> q \<notin> set (livePodRefs rl))"
  note detect = NewReconcileLooper_Inr [OF assms(1,2) P_def]
  have logged: "errorLog w1 =
           errorLog w @
           map PodRefMissing
             (concat (map (\<lambda>p. filter (\<lambda>r. PodRef r = '''') (Allocations p)) pools))"
    using detect(3) by simp
  have groups: "\<forall>orphanedIP\<in>set (orphanedIPs rl).
            \<forall>r\<in>set (OrphanedAllocations orphanedIP). PodRef r \<noteq> ''''"
    unfolding detect(2) by (auto simp: P_def)
  from pass_update_calls [OF assms] obtain n where
    "updateCalls w2 = updateCalls w1 @
           map (\<lambda>p. (p, filter (\<lambda>r. \<not> orphaned (livePodRefs rl) r) (Allocations p)))
               (take n (filter (\<lambda>p. \<exists>r\<in>set (Allocations p). orphaned (livePodRefs rl) r) pools))"
    by blast
  then have calls: "drop (length (updateCalls w1)) (updateCalls w2) =
           map (\<lambda>p. (p, filter (\<lambda>r. \<not> orphaned (livePodRefs rl) r) (Allocations p)))
               (take n (filter (\<lambda>p. \<exists>r\<in>set (Allocations p). orphaned (livePodRefs rl) r) pools))"
    by simp
  have kept: "filter (\<lambda>r. PodRef r = '''')
                (filter (\<lambda>r. \<not> orphaned (livePodRefs rl) r) xs) =
              filter (\<lambda>r. PodRef r = '''') xs" for xs
    by (induction xs) auto
  have committed: "\<forall>(pool, committed) \<in> set (drop (length (updateCalls w1)) (updateCalls w2)).
            pool \<in> set pools \<and>
            filter (\<lambda>r. PodRef r = '''') committed =
            filter (\<lambda>r. PodRef r = '''') (Allocations pool)"
    unfolding calls using kept by (auto dest: in_set_takeD)
  have reported: "\<forall>r\<in>set report. PodRef r \<noteq> ''''"
    using pass_report [OF assms] by (auto simp: computeCleanedUpIPs_eq)
  from logged groups committed reported show ?thesis by blast
qed

text \<open>The theorem on scenario B, with no live pod at all.\<close>

theorem empty_owner_never_removed_witness:
  "NewReconcileLooper (Inr clusterClient) (freshWorld anomalyCluster) =
     ((freshWorld anomalyCluster)\<lparr>errorLog :=
          [PodRefMissing \<lparr>IP = ''10.0.0.5'', PodRef = ''''\<rparr>]\<rparr>,
      Inr anomalyLooper) \<and>
   ListIPPools clusterClient (cluster (freshWorld anomalyCluster)) = Inr [anomalyPool] \<and>
   ReconcileIPPools anomalyLooper
     ((freshWorld anomalyCluster)\<lparr>errorLog :=
          [PodRefMissing \<lparr>IP = ''10.0.0.5'', PodRef = ''''\<rparr>]\<rparr>) =
     (\<lparr>cluster = anomalyCluster\<lparr>clusterPools :=
          [anomalyPool\<lparr>poolVersion := 1,
             Allocations := [\<lparr>IP = ''10.0.0.5'', PodRef = ''''\<rparr>]\<rparr>]\<rparr>,
       errorLog = [PodRefMissing \<lparr>IP = ''10.0.0.5'', PodRef = ''''\<rparr>],
       deallocCalls = [''ns/podB''],
       updateCalls = [(anomalyPool, [\<lparr>IP = ''10.0.0.5'', PodRef = ''''\<rparr>])]\<rparr>,
      [\<lparr>IP = ''10.0.0.6'', PodRef = ''ns/podB''\<rparr>], None) \<and>
   PodRef (\<lparr>IP = ''10.0.0.6'', PodRef = ''ns/podB''\<rparr>) \<noteq> '''' \<and>
   filter (\<lambda>r. PodRef r = '''') [\<lparr>IP = ''10.0.0.5'', PodRef = ''''\<rparr>] =
   filter (\<lambda>r. PodRef r = '''') (Allocations anomalyPool)"
proof -
  have h1: "NewReconcileLooper (Inr clusterClient) (freshWorld anomalyCluster) =
     ((freshWorld anomalyCluster)\<lparr>errorLog :=
          [PodRefMissing \<lparr>IP = ''10.0.0.5'', PodRef = ''''\<rparr>]\<rparr>,
      Inr anomalyLooper)"
    by (simp add: run_defs anomalyCluster_def anomalyPool_def anomalyLooper_def)
  have h2: "ListIPPools clusterClient (cluster (freshWorld anomalyCluster)) = Inr [anomalyPool]"
    by (simp add: run_defs anomalyCluster_def)
  have h3: "ReconcileIPPools anomalyLooper
     ((freshWorld anomalyCluster)\<lparr>errorLog :=
          [PodRefMissing \<lparr>IP = ''10.0.0.5'', PodRef = ''''\<rparr>]\<rparr>) =
     (\<lparr>cluster = anomalyCluster\<lparr>clusterPools :=
          [anomalyPool\<lparr>poolVersion := 1,
             Allocations := [\<lparr>IP = ''10.0.0.5'', PodRef = ''''\<rparr>]\<rparr>]\<rparr>,
       errorLog = [PodRefMissing \<lparr>IP = ''10.0.0.5'', PodRef = ''''\<rparr>],
       deallocCalls = [''ns/podB''],
       updateCalls = [(anomalyPool, [\<lparr>IP = ''10.0.0.5'', PodRef = ''''\<rparr>])]\<rparr>,
      [\<lparr>IP = ''10.0.0.6'', PodRef = ''ns/podB''\<rparr>], None)"
    by (simp add: run_defs anomalyCluster_def anomalyPool_def anomalyLooper_def)
  from empty_owner_never_removed [OF h1 h2 h3] h1 h2 h3
  show ?thesis by (simp add: freshWorld_def)
qed

subsection \<open>C4: one write for each pool with orphans\<close>

text \<open>
  The design document counts orphaned owners: a pool with N of them is written
  once, with a list of length \<open>len(original) - N\<close>. The looper removes one
  reservation for each orphaned reservation, so the count fails where a dead pod
  holds two addresses: in the pool below one owner is orphaned, the pool is
  written once, and the list written is shorter by two.
\<close>

theorem one_orphaned_owner_two_removed_counterexample:
  "NewReconcileLooper (Inr clusterClient) (freshWorld twinCluster) =
     (freshWorld twinCluster, Inr twinLooper) \<and>
   remdups (map PodRef (concat (map OrphanedAllocations (orphanedIPs twinLooper)))) =
     [''ns/podB''] \<and>
   updateCalls (fst (ReconcileIPPools twinLooper (freshWorld twinCluster))) =
     [(twinPool, [\<lparr>IP = ''10.0.1.1'', PodRef = ''ns/podA''\<rparr>])] \<and>
   length [\<lparr>IP = ''10.0.1.1'', PodRef = ''ns/podA''\<rparr>] \<noteq>
     length (Allocations twinPool) - length [''ns/podB'']"
  by (simp add: run_defs twinCluster_def twinPool_def cleanPool_def twinLooper_def)

text \<open>
  Claim C4, amended: N counts the orphaned reservations. In every pass the
  invocations of \<^verbatim>\<open>Pool.Update\<close> are, in listing order, one for each of the
  first \<open>n\<close> pools that hold an orphan, and for all of them when the pass returns
  no error; so a pool without orphans is never written, and a pool with orphans
  is written once in a pass that returns no error. Each list written has the
  length of the pool's reservations less the number of its orphaned reservations.
\<close>

theorem one_update_per_pool_with_orphans:
  assumes "NewReconcileLooper (Inr client) w = (w1, Inr rl)"
    and "ListIPPools client (cluster w) = Inr pools"
    and "ReconcileIPPools rl w1 = (w2, report, err)"
  shows "(\<exists>n. updateCalls w2 =
            updateCalls w1 @
            map (\<lambda>p. (p, filter (\<lambda>r. \<not> orphaned (livePodRefs rl) r) (Allocations p)))
                (take n (filter (\<lambda>p. \<exists>r\<in>set (Allocations p). orphaned (livePodRefs rl) r) pools)) \<and>
            (err = None \<longrightarrow>
               n = length (filter (\<lambda>p. \<exists>r\<in>set (Allocations p). orphaned (livePodRefs rl) r) pools))) \<and>
         (\<forall>(pool, committed) \<in> set (drop (length (updateCalls w1)) (updateCalls w2)).
            length committed =
            length (Allocations pool) -
            length (filter (orphaned (livePodRefs rl)) (Allocations pool)))"
proof -
  from pass_update_calls [OF assms] obtain n where
    n: "updateCalls w2 = updateCalls w1 @
           map (\<lambda>p. (p, filter (\<lambda>r. \<not> orphaned (livePodRefs rl) r) (Allocations p)))
               (take n (filter (\<lambda>p. \<exists>r\<in>set (Allocations p). orphaned (livePodRefs rl) r) pools))"
      "err = None \<longrightarrow>
         n = length (filter (\<lambda>p. \<exists>r\<in>set (Allocations p). orphaned (livePodRefs rl) r) pools)"
    by blast
  from n(1) have calls: "drop (length (updateCalls w1)) (updateCalls w2) =
           map (\<lambda>p. (p, filter (\<lambda>r. \<not> orphaned (livePodRefs rl) r) (Allocations p)))
               (take n (filter (\<lambda>p. \<exists>r\<in>set (Allocations p). orphaned (livePodRefs rl) r) pools))"
    by simp
  have len: "length (filter (\<lambda>r. \<not> orphaned (livePodRefs rl) r) xs) =
             length xs - length (filter (orphaned (livePodRefs rl)) xs)" for xs
    using sum_length_filter_compl [of "orphaned (livePodRefs rl)" xs] by simp
  have "\<forall>(pool, committed) \<in> set (drop (length (updateCalls w1)) (updateCalls w2)).
            length committed =
            length (Allocations pool) -
            length (filter (orphaned (livePodRefs rl)) (Allocations pool))"
    unfolding calls using len by auto
  with n show ?thesis by blast
qed

text \<open>The theorem on scenario C: two pools, one of them with orphans.\<close>

theorem one_update_per_pool_with_orphans_witness:
  "NewReconcileLooper (Inr clusterClient) (freshWorld twinCluster) =
     (freshWorld twinCluster, Inr twinLooper) \<and>
   ListIPPools clusterClient (cluster (freshWorld twinCluster)) = Inr [cleanPool, twinPool] \<and>
   ReconcileIPPools twinLooper (freshWorld twinCluster) =
     (\<lparr>cluster = twinCluster\<lparr>clusterPools :=
          [cleanPool,
           twinPool\<lparr>poolVersion := 1,
             Allocations := [\<lparr>IP = ''10.0.1.1'', PodRef = ''ns/podA''\<rparr>]\<rparr>]\<rparr>,
       errorLog = [], deallocCalls = [''ns/podB'', ''ns/podB''],
       updateCalls = [(twinPool, [\<lparr>IP = ''10.0.1.1'', PodRef = ''ns/podA''\<rparr>])]\<rparr>,
      [\<lparr>IP = ''10.0.1.2'', PodRef = ''ns/podB''\<rparr>,
       \<lparr>IP = ''10.0.1.3'', PodRef = ''ns/podB''\<rparr>], None) \<and>
   filter (\<lambda>p. \<exists>r\<in>set (Allocations p). orphaned (livePodRefs twinLooper) r)
     [cleanPool, twinPool] = [twinPool] \<and>
   length [\<lparr>IP = ''10.0.1.1'', PodRef = ''ns/podA''\<rparr>] =
     length (Allocations twinPool) -
     length (filter (orphaned (livePodRefs twinLooper)) (Allocations twinPool)) \<and>
   length (filter (orphaned (livePodRefs twinLooper)) (Allocations twinPool)) = 2"
proof -
  have h1: "NewReconcileLooper (Inr clusterClient) (freshWorld twinCluster) =
     (freshWorld twinCluster, Inr twinLooper)"
    by (simp add: run_defs twinCluster_def twinPool_def cleanPool_def twinLooper_def)
  have h2: "ListIPPools clusterClient (cluster (freshWorld twinCluster)) = Inr [cleanPool, twinPool]"
    by (simp add: run_defs twinCluster_def)
  have h3: "ReconcileIPPools twinLooper (freshWorld twinCluster) =
     (\<lparr>cluster = twinCluster\<lparr>clusterPools :=
          [cleanPool,
           twinPool\<lparr>poolVersion := 1,
             Allocations := [\<lparr>IP = ''10.0.1.1'', PodRef = ''ns/podA''\<rparr>]\<rparr>]\<rparr>,
       errorLog = [], deallocCalls = [''ns/podB'', ''ns/podB''],
       updateCalls = [(twinPool, [\<lparr>IP = ''10.0.1.1'', PodRef = ''ns/podA''\<rparr>])]\<rparr>,
      [\<lparr>IP = ''10.0.1.2'', PodRef = ''ns/podB''\<rparr>,
       \<lparr>IP = ''10.0.1.3'', PodRef = ''ns/podB''\<rparr>], None)"
    by (simp add: run_defs twinCluster_def twinPool_def cleanPool_def twinLooper_def)
  have h4: "filter (\<lambda>p. \<exists>r\<in>set (Allocations p). orphaned (livePodRefs twinLooper) r)
     [cleanPool, twinPool] = [twinPool]"
    by (simp add: twinPool_def cleanPool_def twinLooper_def)
  have h5: "length (filter (orphaned (livePodRefs twinLooper)) (Allocations twinPool)) = 2"
    by (simp add: twinPool_def twinLooper_def)
  from one_update_per_pool_with_orphans [OF h1 h2 h3]
  have c: "length [\<lparr>IP = ''10.0.1.1'', PodRef = ''ns/podA''\<rparr>] =
     length (Allocations twinPool) -
     length (filter (orphaned (livePodRefs twinLooper)) (Allocations twinPool))"
    by (simp add: freshWorld_def)
  from h1 h2 h3 h4 c h5 show ?thesis by blast
qed

subsection \<open>C5: a second pass finds nothing\<close>

text \<open>Two facts for the store of the design document: the looper's live list
  is what \<^verbatim>\<open>getPodRefs\<close> returned, and a pass that returns no error leaves no
  orphan in any pool of the store and does not touch the pods.\<close>

lemma NewReconcileLooper_live:
  assumes "NewReconcileLooper (Inr client) w = (w1, Inr rl)"
  shows "getPodRefs client w = Inr (livePodRefs rl)"
proof -
  from assms obtain live where live: "getPodRefs client w = Inr live"
    by (auto simp: NewReconcileLooper_def split: sum.splits)
  obtain pools where pools: "ListIPPools client (cluster w) = Inr pools"
    using assms live
    by (cases "ListIPPools client (cluster w)")
       (auto simp: NewReconcileLooper_def findOrphanedIPsPerPool_def)
  from assms live pools have "livePodRefs rl = live"
    by (auto simp: NewReconcileLooper_def findOrphanedIPsPerPool_def scanPools_eq)
  with live show ?thesis by simp
qed

lemma cluster_pass_leaves_no_orphan:
  assumes "reconcileLoop rl
     (map (\<lambda>p. \<lparr>Pool = p, OrphanedAllocations = filter (\<lambda>r. P (PodRef r)) (Allocations p)\<rparr>) ps)
     acc w = (w', report, None)"
    and "k8sClient rl = clusterClient"
    and "\<forall>e\<in>set (clusterPools (cluster w)). (\<forall>r\<in>set (Allocations e). \<not> P (PodRef r)) \<or> e \<in> set ps"
  shows "(\<forall>e\<in>set (clusterPools (cluster w')). \<forall>r\<in>set (Allocations e). \<not> P (PodRef r)) \<and>
         clusterPods (cluster w') = clusterPods (cluster w)"
  using assms
proof (induction ps arbitrary: acc w)
  case Nil
  then show ?case by simp
next
  case (Cons p ps)
  let ?kept = "filter (\<lambda>r. \<not> P (PodRef r)) (Allocations p)"
  let ?groups = "map (\<lambda>p. \<lparr>Pool = p, OrphanedAllocations = filter (\<lambda>r. P (PodRef r)) (Allocations p)\<rparr>) ps"
  show ?case
  proof (cases "clusterUpdate (cluster w) p ?kept")
    case (Inl e)
    with Cons.prems(1,2) show ?thesis
      by (simp add: reconcileLoop_group PoolUpdate_def clusterClient_def
            del: reconcileLoop.simps(2))
  next
    case (Inr st)
    then have st: "st = (cluster w)\<lparr>clusterPools :=
        map (\<lambda>q. if poolKey q = poolKey p \<and> poolVersion q = poolVersion p
                 then q\<lparr>poolVersion := Suc (poolVersion q), Allocations := ?kept\<rparr> else q)
            (clusterPools (cluster w))\<rparr>"
      by (auto simp: clusterUpdate_def split: if_splits)
    let ?w2 = "w\<lparr>deallocCalls := deallocCalls w @ map PodRef (filter (\<lambda>r. P (PodRef r)) (Allocations p)),
                 cluster := st, updateCalls := updateCalls w @ [(p, ?kept)]\<rparr>"
    from Cons.prems(1,2) Inr
    have loop: "reconcileLoop rl ?groups (acc @ computeCleanedUpIPs (Allocations p) ?kept) ?w2 =
        (w', report, None)"
      by (simp add: reconcileLoop_group PoolUpdate_def clusterClient_def
            del: reconcileLoop.simps(2))
    have inv: "\<forall>e\<in>set (clusterPools (cluster ?w2)).
        (\<forall>r\<in>set (Allocations e). \<not> P (PodRef r)) \<or> e \<in> set ps"
    proof
      fix e assume "e \<in> set (clusterPools (cluster ?w2))"
      then obtain q where q: "q \<in> set (clusterPools (cluster w))"
        and e: "e = (if poolKey q = poolKey p \<and> poolVersion q = poolVersion p
                 then q\<lparr>poolVersion := Suc (poolVersion q), Allocations := ?kept\<rparr> else q)"
        by (auto simp: st)
      show "(\<forall>r\<in>set (Allocations e). \<not> P (PodRef r)) \<or> e \<in> set ps"
      proof (cases "poolKey q = poolKey p \<and> poolVersion q = poolVersion p")
        case True
        with e show ?thesis by simp
      next
        case False
        then have "q \<noteq> p" by auto
        with Cons.prems(3) q False e show ?thesis by auto
      qed
    qed
    from Cons.IH [OF loop Cons.prems(2) inv] show ?thesis
      by (simp add: st)
  qed
qed

text \<open>
  Claim C5. Against the store of the design document, after a pass that returned
  no error, a second pass begun in the world the first one left (so with the same
  pods and with no change to the pools in between) builds a looper without any
  orphan group, returns the empty list and no error, and writes nothing.
\<close>

theorem second_pass_removes_nothing:
  assumes "reconcile (Inr clusterClient) w = (w1, report, None)"
  shows "\<exists>w2 rl2. NewReconcileLooper (Inr clusterClient) w1 = (w2, Inr rl2) \<and>
              orphanedIPs rl2 = [] \<and>
              reconcile (Inr clusterClient) w1 = (w2, [], None) \<and>
              cluster w2 = cluster w1 \<and> updateCalls w2 = updateCalls w1 \<and>
              deallocCalls w2 = deallocCalls w1"
proof -
  from assms obtain w0 rl where
    build: "NewReconcileLooper (Inr clusterClient) w = (w0, Inr rl)" and
    pass: "ReconcileIPPools rl w0 = (w1, report, None)"
    by (auto simp: reconcile_def split: prod.splits sum.splits)
  define P where "P = (\<lambda>q. q \<noteq> '''' \<and> q \<notin> set (livePodRefs rl))"
  let ?has = "\<lambda>p. \<exists>r\<in>set (Allocations p). P (PodRef r)"
  let ?pools = "clusterPools (cluster w)"
  have pools: "ListIPPools clusterClient (cluster w) = Inr ?pools"
    by (simp add: clusterClient_def)
  note detect = NewReconcileLooper_Inr [OF build pools P_def]
  have live: "podRefsLoop (clusterPods (cluster w)) [] = livePodRefs rl"
    using NewReconcileLooper_live [OF build] by (simp add: getPodRefs_def clusterClient_def)
  have loop: "reconcileLoop rl
      (map (\<lambda>p. \<lparr>Pool = p, OrphanedAllocations = filter (\<lambda>r. P (PodRef r)) (Allocations p)\<rparr>)
         (filter ?has ?pools)) [] w0 = (w1, report, None)"
    using pass detect(2) by (simp add: ReconcileIPPools_def)
  have start: "\<forall>e\<in>set (clusterPools (cluster w0)).
      (\<forall>r\<in>set (Allocations e). \<not> P (PodRef r)) \<or> e \<in> set (filter ?has ?pools)"
    using detect(3) by auto
  from cluster_pass_leaves_no_orphan [OF loop detect(1) start]
  have clean: "\<forall>e\<in>set (clusterPools (cluster w1)). \<forall>r\<in>set (Allocations e). \<not> P (PodRef r)"
    and pods: "clusterPods (cluster w1) = clusterPods (cluster w)"
    using detect(3) by simp_all
  let ?rl0 = "\<lparr>k8sClient = clusterClient, livePodRefs = livePodRefs rl, orphanedIPs = []\<rparr>"
  have pools1: "ListIPPools (k8sClient ?rl0) (cluster w1) = Inr (clusterPools (cluster w1))"
    by (simp add: clusterClient_def)
  have none: "filter (\<lambda>p. \<exists>r\<in>set (Allocations p). P (PodRef r)) (clusterPools (cluster w1)) = []"
    using clean by (auto simp: filter_empty_conv)
  have P0: "P = (\<lambda>q. q \<noteq> '''' \<and> q \<notin> set (livePodRefs ?rl0))"
    by (simp add: P_def)
  let ?w2 = "w1\<lparr>errorLog := errorLog w1 @ map PodRefMissing
        (concat (map (\<lambda>p. filter (\<lambda>a. PodRef a = '''') (Allocations p)) (clusterPools (cluster w1))))\<rparr>"
  have "findOrphanedIPsPerPool ?rl0 w1 = (?w2, ?rl0, None)"
    using findOrphanedIPsPerPool_eq [OF pools1 P0] none by simp
  moreover have "getPodRefs clusterClient w1 = Inr (livePodRefs rl)"
    using live pods by (simp add: getPodRefs_def clusterClient_def)
  ultimately have build2: "NewReconcileLooper (Inr clusterClient) w1 = (?w2, Inr ?rl0)"
    by (simp add: NewReconcileLooper_def)
  then have "reconcile (Inr clusterClient) w1 = (?w2, [], None)"
    by (simp add: reconcile_def ReconcileIPPools_def)
  with build2 show ?thesis by simp
qed

text \<open>The theorem on scenario A, run twice.\<close>

theorem second_pass_removes_nothing_witness:
  "reconcile (Inr clusterClient) (freshWorld scenarioCluster) =
     (scenarioAfter, [\<lparr>IP = ''10.0.0.2'', PodRef = ''ns/podB''\<rparr>], None) \<and>
   NewReconcileLooper (Inr clusterClient) scenarioAfter =
     (scenarioAfter, Inr (scenarioLooper\<lparr>orphanedIPs := []\<rparr>)) \<and>
   reconcile (Inr clusterClient) scenarioAfter = (scenarioAfter, [], None)"
proof -
  have h1: "reconcile (Inr clusterClient) (freshWorld scenarioCluster) =
     (scenarioAfter, [\<lparr>IP = ''10.0.0.2'', PodRef = ''ns/podB''\<rparr>], None)"
    using scenarioA_run by (simp add: scenarioAfter_def)
  have h2: "NewReconcileLooper (Inr clusterClient) scenarioAfter =
     (scenarioAfter, Inr (scenarioLooper\<lparr>orphanedIPs := []\<rparr>))"
    by (simp add: run_defs scenarioAfter_def scenarioCluster_def scenarioPool_def
          scenarioLooper_def)
  from second_pass_removes_nothing [OF h1] h2 have h3:
    "reconcile (Inr clusterClient) scenarioAfter = (scenarioAfter, [], None)"
    by auto
  from h1 h2 h3 show ?thesis by blast
qed

subsection \<open>C6, C7, C9: the error returns\<close>

text \<open>The loops over a list split in two, and what the inner loop leaves
  untouched.\<close>

lemma reconcileLoop_append:
  "reconcileLoop rl (xs @ ys) acc w =
     (case reconcileLoop rl xs acc w of
        (w1, cleaned, None) \<Rightarrow> reconcileLoop rl ys cleaned w1
      | (w1, cleaned, Some err) \<Rightarrow> (w1, cleaned, Some err))"
  by (induction xs arbitrary: acc w)
     (auto simp: Let_def split: prod.splits sum.splits option.splits)

lemma deallocateLoop_append:
  "deallocateLoop w current (xs @ ys) =
     (case deallocateLoop w current xs of
        (w1, Inl err) \<Rightarrow> (w1, Inl err)
      | (w1, Inr updated) \<Rightarrow> deallocateLoop w1 updated ys)"
  by (induction xs arbitrary: w current) (auto split: prod.splits sum.splits)

lemma deallocateLoop_world:
  "deallocateLoop w current targets = (w', res) \<Longrightarrow>
   cluster w' = cluster w \<and> updateCalls w' = updateCalls w \<and> errorLog w' = errorLog w"
proof (induction targets arbitrary: w current)
  case Nil
  then show ?case by auto
next
  case (Cons t targets)
  show ?case
  proof (cases "IterateForDeallocation current t matchByPodRef")
    case (Inl e)
    with Cons.prems show ?thesis by auto
  next
    case (Inr pair)
    obtain updated removed where "pair = (updated, removed)" by (cases pair)
    with Cons.prems Inr have "deallocateLoop (w\<lparr>deallocCalls := deallocCalls w @ [t]\<rparr>)
        updated targets = (w', res)" by simp
    from Cons.IH [OF this] show ?thesis by simp
  qed
qed

text \<open>
  Claim C6. Let the orphan groups before some group have been processed without
  error, let the deallocations for that group succeed, and let \<^verbatim>\<open>Pool.Update\<close>
  fail for it. Then the pass ends there: it returns the wrapped error of the
  store and the empty list, the failed invocation is the last one made, and the
  cluster is the one the earlier writes left, nothing being undone.
\<close>

theorem update_failure_aborts_pass:
  assumes "orphanedIPs rl = earlier @ orphanedIP # later"
    and "ReconcileIPPools (rl\<lparr>orphanedIPs := earlier\<rparr>) w = (w1, cleaned, None)"
    and "deallocateLoop w1 (Allocations (Pool orphanedIP))
           (findOutPodRefsToDeallocateIPsFrom orphanedIP) = (w2, Inr updated)"
    and "UpdatePool (k8sClient rl) (cluster w2) (Pool orphanedIP) updated = Inl msg"
  shows "ReconcileIPPools rl w =
           (w2\<lparr>errorLog := errorLog w2 @ [UpdateFailed msg],
               updateCalls := updateCalls w2 @ [(Pool orphanedIP, updated)]\<rparr>,
            [], Some (UpdateFailed msg)) \<and>
         cluster w2 = cluster w1 \<and> updateCalls w2 = updateCalls w1"
proof -
  have same: "reconcileLoop (rl\<lparr>orphanedIPs := earlier\<rparr>) gs acc v = reconcileLoop rl gs acc v"
    for gs acc v
    by (induction gs arbitrary: acc v) simp_all
  from assms(2) have first: "reconcileLoop rl earlier [] w = (w1, cleaned, None)"
    by (simp add: ReconcileIPPools_def same)
  have "reconcileLoop rl (orphanedIP # later) cleaned w1 =
      (w2\<lparr>errorLog := errorLog w2 @ [UpdateFailed msg],
          updateCalls := updateCalls w2 @ [(Pool orphanedIP, updated)]\<rparr>,
       [], Some (UpdateFailed msg))"
    using assms(3,4) by (simp add: PoolUpdate_def Errorf_def)
  with first have run: "ReconcileIPPools rl w =
      (w2\<lparr>errorLog := errorLog w2 @ [UpdateFailed msg],
          updateCalls := updateCalls w2 @ [(Pool orphanedIP, updated)]\<rparr>,
       [], Some (UpdateFailed msg))"
    unfolding ReconcileIPPools_def assms(1) reconcileLoop_append by simp
  from deallocateLoop_world [OF assms(3)] run show ?thesis by simp
qed

text \<open>The theorem on scenario D: the first pool is written, the write of the
  second is rejected as a conflict.\<close>

theorem update_failure_aborts_pass_witness:
  "orphanedIPs racedLooper = [hd (orphanedIPs racedLooper)] @ last (orphanedIPs racedLooper) # [] \<and>
   Pool (last (orphanedIPs racedLooper)) = twinPool \<and>
   ReconcileIPPools (racedLooper\<lparr>orphanedIPs := [hd (orphanedIPs racedLooper)]\<rparr>)
     (freshWorld racedCluster) =
     (racedCommitted, [\<lparr>IP = ''10.0.0.2'', PodRef = ''ns/podB''\<rparr>], None) \<and>
   deallocateLoop racedCommitted (Allocations twinPool)
     (findOutPodRefsToDeallocateIPsFrom (last (orphanedIPs racedLooper))) =
     (racedCommitted\<lparr>deallocCalls := [''ns/podB'', ''ns/podB'', ''ns/podB'']\<rparr>,
      Inr [\<lparr>IP = ''10.0.1.1'', PodRef = ''ns/podA''\<rparr>]) \<and>
   UpdatePool (k8sClient racedLooper) (cluster racedCommitted) twinPool
     [\<lparr>IP = ''10.0.1.1'', PodRef = ''ns/podA''\<rparr>] = Inl ''conflict'' \<and>
   ReconcileIPPools racedLooper (freshWorld racedCluster) =
     (racedCommitted\<lparr>errorLog := [UpdateFailed ''conflict''],
        deallocCalls := [''ns/podB'', ''ns/podB'', ''ns/podB''],
        updateCalls := updateCalls racedCommitted @
          [(twinPool, [\<lparr>IP = ''10.0.1.1'', PodRef = ''ns/podA''\<rparr>])]\<rparr>,
      [], Some (UpdateFailed ''conflict''))"
proof -
  have h1: "orphanedIPs racedLooper =
      [hd (orphanedIPs racedLooper)] @ last (orphanedIPs racedLooper) # []"
    by (simp add: racedLooper_def)
  have p: "Pool (last (orphanedIPs racedLooper)) = twinPool"
    by (simp add: racedLooper_def)
  have h2: "ReconcileIPPools (racedLooper\<lparr>orphanedIPs := [hd (orphanedIPs racedLooper)]\<rparr>)
     (freshWorld racedCluster) =
     (racedCommitted, [\<lparr>IP = ''10.0.0.2'', PodRef = ''ns/podB''\<rparr>], None)"
    by (simp add: run_defs racedLooper_def racedCluster_def racedCommitted_def
          racedTwinPool_def scenarioPool_def twinPool_def)
  have h3: "deallocateLoop racedCommitted (Allocations (Pool (last (orphanedIPs racedLooper))))
     (findOutPodRefsToDeallocateIPsFrom (last (orphanedIPs racedLooper))) =
     (racedCommitted\<lparr>deallocCalls := [''ns/podB'', ''ns/podB'', ''ns/podB'']\<rparr>,
      Inr [\<lparr>IP = ''10.0.1.1'', PodRef = ''ns/podA''\<rparr>])"
    by (simp add: run_defs racedLooper_def racedCommitted_def twinPool_def)
  have h4: "UpdatePool (k8sClient racedLooper)
      (cluster (racedCommitted\<lparr>deallocCalls := [''ns/podB'', ''ns/podB'', ''ns/podB'']\<rparr>))
      (Pool (last (orphanedIPs racedLooper)))
      [\<lparr>IP = ''10.0.1.1'', PodRef = ''ns/podA''\<rparr>] = Inl ''conflict''"
    by (simp add: run_defs racedLooper_def racedCluster_def racedCommitted_def
          racedTwinPool_def scenarioPool_def twinPool_def)
  from update_failure_aborts_pass [OF h1 h2 h3 h4] h1 p h2 h3 h4
  show ?thesis by (simp add: racedCommitted_def)
qed

text \<open>
  Claim C7. Let the orphan groups before some group have been processed without
  error, and let the primitive report not-found for one of the group's pod
  references after the ones before it were removed. Then the pass returns that
  error and the empty list, and neither the cluster nor the invocations of
  \<^verbatim>\<open>Pool.Update\<close> differ from what the earlier groups left: the pool is not
  written.
\<close>

theorem not_found_aborts_before_update:
  assumes "orphanedIPs rl = earlier @ orphanedIP # later"
    and "ReconcileIPPools (rl\<lparr>orphanedIPs := earlier\<rparr>) w = (w1, cleaned, None)"
    and "findOutPodRefsToDeallocateIPsFrom orphanedIP = removed @ podRef # remaining"
    and "deallocateLoop w1 (Allocations (Pool orphanedIP)) removed = (w2, Inr current)"
    and "IterateForDeallocation current podRef matchByPodRef = Inl (OwnerNotFound podRef)"
  shows "ReconcileIPPools rl w =
           (w2\<lparr>deallocCalls := deallocCalls w2 @ [podRef]\<rparr>, [], Some (OwnerNotFound podRef)) \<and>
         cluster w2 = cluster w1 \<and> updateCalls w2 = updateCalls w1"
proof -
  have same: "reconcileLoop (rl\<lparr>orphanedIPs := earlier\<rparr>) gs acc v = reconcileLoop rl gs acc v"
    for gs acc v
    by (induction gs arbitrary: acc v) simp_all
  from assms(2) have first: "reconcileLoop rl earlier [] w = (w1, cleaned, None)"
    by (simp add: ReconcileIPPools_def same)
  have "deallocateLoop w1 (Allocations (Pool orphanedIP))
          (findOutPodRefsToDeallocateIPsFrom orphanedIP) =
        (w2\<lparr>deallocCalls := deallocCalls w2 @ [podRef]\<rparr>, Inl (OwnerNotFound podRef))"
    unfolding assms(3) deallocateLoop_append using assms(4,5) by simp
  then have "reconcileLoop rl (orphanedIP # later) cleaned w1 =
      (w2\<lparr>deallocCalls := deallocCalls w2 @ [podRef]\<rparr>, [], Some (OwnerNotFound podRef))"
    by simp
  with first have run: "ReconcileIPPools rl w =
      (w2\<lparr>deallocCalls := deallocCalls w2 @ [podRef]\<rparr>, [], Some (OwnerNotFound podRef))"
    unfolding ReconcileIPPools_def assms(1) reconcileLoop_append by simp
  from deallocateLoop_world [OF assms(4)] run show ?thesis by simp
qed

text \<open>The theorem on a looper whose second group names a pod reference its
  pool does not hold.\<close>

theorem not_found_aborts_before_update_witness:
  "orphanedIPs lostLooper = [hd (orphanedIPs lostLooper)] @ last (orphanedIPs lostLooper) # [] \<and>
   Pool (last (orphanedIPs lostLooper)) = twinPool \<and>
   ReconcileIPPools (lostLooper\<lparr>orphanedIPs := [hd (orphanedIPs lostLooper)]\<rparr>)
     (freshWorld racedCluster) =
     (racedCommitted, [\<lparr>IP = ''10.0.0.2'', PodRef = ''ns/podB''\<rparr>], None) \<and>
   findOutPodRefsToDeallocateIPsFrom (last (orphanedIPs lostLooper)) =
     [''ns/podB''] @ ''ns/podZ'' # [] \<and>
   deallocateLoop racedCommitted (Allocations twinPool) [''ns/podB''] =
     (racedCommitted\<lparr>deallocCalls := [''ns/podB'', ''ns/podB'']\<rparr>,
      Inr [\<lparr>IP = ''10.0.1.1'', PodRef = ''ns/podA''\<rparr>,
           \<lparr>IP = ''10.0.1.3'', PodRef = ''ns/podB''\<rparr>]) \<and>
   IterateForDeallocation [\<lparr>IP = ''10.0.1.1'', PodRef = ''ns/podA''\<rparr>,
                           \<lparr>IP = ''10.0.1.3'', PodRef = ''ns/podB''\<rparr>]
     ''ns/podZ'' matchByPodRef = Inl (OwnerNotFound ''ns/podZ'') \<and>
   ReconcileIPPools lostLooper (freshWorld racedCluster) =
     (racedCommitted\<lparr>deallocCalls := [''ns/podB'', ''ns/podB'', ''ns/podZ'']\<rparr>,
      [], Some (OwnerNotFound ''ns/podZ''))"
proof -
  have h1: "orphanedIPs lostLooper =
      [hd (orphanedIPs lostLooper)] @ last (orphanedIPs lostLooper) # []"
    by (simp add: lostLooper_def)
  have p: "Pool (last (orphanedIPs lostLooper)) = twinPool"
    by (simp add: lostLooper_def)
  have h2: "ReconcileIPPools (lostLooper\<lparr>orphanedIPs := [hd (orphanedIPs lostLooper)]\<rparr>)
     (freshWorld racedCluster) =
     (racedCommitted, [\<lparr>IP = ''10.0.0.2'', PodRef = ''ns/podB''\<rparr>], None)"
    by (simp add: run_defs lostLooper_def racedCluster_def racedCommitted_def
          racedTwinPool_def scenarioPool_def twinPool_def)
  have h3: "findOutPodRefsToDeallocateIPsFrom (last (orphanedIPs lostLooper)) =
     [''ns/podB''] @ ''ns/podZ'' # []"
    by (simp add: run_defs lostLooper_def)
  have h4: "deallocateLoop racedCommitted (Allocations (Pool (last (orphanedIPs lostLooper))))
      [''ns/podB''] =
     (racedCommitted\<lparr>deallocCalls := [''ns/podB'', ''ns/podB'']\<rparr>,
      Inr [\<lparr>IP = ''10.0.1.1'', PodRef = ''ns/podA''\<rparr>,
           \<lparr>IP = ''10.0.1.3'', PodRef = ''ns/podB''\<rparr>])"
    by (simp add: run_defs lostLooper_def racedCommitted_def twinPool_def)
  have h5: "IterateForDeallocation [\<lparr>IP = ''10.0.1.1'', PodRef = ''ns/podA''\<rparr>,
                           \<lparr>IP = ''10.0.1.3'', PodRef = ''ns/podB''\<rparr>]
     ''ns/podZ'' matchByPodRef = Inl (OwnerNotFound ''ns/podZ'')"
    by (simp add: run_defs)
  from not_found_aborts_before_update [OF h1 h2 h3 h4 h5] h1 p h2 h3 h4 h5
  show ?thesis by (simp add: racedCommitted_def)
qed

text \<open>
  Claim C9. Whenever \<^verbatim>\<open>ReconcileIPPools\<close> returns an error, the list it returns
  is nil.
\<close>

theorem error_return_has_nil_list:
  assumes "ReconcileIPPools rl w = (w', report, Some err)"
  shows "report = []"
  using assms unfolding ReconcileIPPools_def by (rule reconcileLoop_error_nil)

text \<open>The theorem on both kinds of error. In each run the first pool has been
  written without its orphan, which the returned list does not show.\<close>

theorem error_return_has_nil_list_witness:
  "ReconcileIPPools racedLooper (freshWorld racedCluster) =
     (racedCommitted\<lparr>errorLog := [UpdateFailed ''conflict''],
        deallocCalls := [''ns/podB'', ''ns/podB'', ''ns/podB''],
        updateCalls := updateCalls racedCommitted @
          [(twinPool, [\<lparr>IP = ''10.0.1.1'', PodRef = ''ns/podA''\<rparr>])]\<rparr>,
      [], Some (UpdateFailed ''conflict'')) \<and>
   ReconcileIPPools lostLooper (freshWorld racedCluster) =
     (racedCommitted\<lparr>deallocCalls := [''ns/podB'', ''ns/podB'', ''ns/podZ'']\<rparr>,
      [], Some (OwnerNotFound ''ns/podZ'')) \<and>
   map Allocations (clusterPools (cluster racedCommitted)) =
     [[\<lparr>IP = ''10.0.0.1'', PodRef = ''ns/podA''\<rparr>,
       \<lparr>IP = ''10.0.0.3'', PodRef = ''ns/podC''\<rparr>],
      Allocations racedTwinPool]"
proof -
  obtain w1 report1 e1 where r1:
    "ReconcileIPPools racedLooper (freshWorld racedCluster) = (w1, report1, e1)"
    by (cases "ReconcileIPPools racedLooper (freshWorld racedCluster)")
  have v1: "w1 = racedCommitted\<lparr>errorLog := [UpdateFailed ''conflict''],
        deallocCalls := [''ns/podB'', ''ns/podB'', ''ns/podB''],
        updateCalls := updateCalls racedCommitted @
          [(twinPool, [\<lparr>IP = ''10.0.1.1'', PodRef = ''ns/podA''\<rparr>])]\<rparr>"
    and f1: "e1 = Some (UpdateFailed ''conflict'')"
    using r1
    by (simp_all add: run_defs racedLooper_def racedCluster_def racedCommitted_def
          racedTwinPool_def scenarioPool_def twinPool_def)
  from error_return_has_nil_list [of racedLooper "freshWorld racedCluster" w1 report1
      "UpdateFailed ''conflict''"] r1 f1
  have n1: "report1 = []" by simp
  obtain w2 report2 e2 where r2:
    "ReconcileIPPools lostLooper (freshWorld racedCluster) = (w2, report2, e2)"
    by (cases "ReconcileIPPools lostLooper (freshWorld racedCluster)")
  have v2: "w2 = racedCommitted\<lparr>deallocCalls := [''ns/podB'', ''ns/podB'', ''ns/podZ'']\<rparr>"
    and f2: "e2 = Some (OwnerNotFound ''ns/podZ'')"
    using r2
    by (simp_all add: run_defs lostLooper_def racedCluster_def racedCommitted_def
          racedTwinPool_def scenarioPool_def twinPool_def)
  from error_return_has_nil_list [of lostLooper "freshWorld racedCluster" w2 report2
      "OwnerNotFound ''ns/podZ''"] r2 f2
  have n2: "report2 = []" by simp
  have stored: "map Allocations (clusterPools (cluster racedCommitted)) =
     [[\<lparr>IP = ''10.0.0.1'', PodRef = ''ns/podA''\<rparr>,
       \<lparr>IP = ''10.0.0.3'', PodRef = ''ns/podC''\<rparr>],
      Allocations racedTwinPool]"
    by (simp add: racedCommitted_def)
  from r1 v1 f1 n1 r2 v2 f2 n2 stored show ?thesis by simp
qed

subsection \<open>C10: one deallocation for each orphaned reservation\<close>

lemma count_list_map_PodRef:
  "count_list (map PodRef xs) podRef = length (filter (\<lambda>r. PodRef r = podRef) xs)"
  by (induction xs) auto

text \<open>
  Claim C10. For the orphan group that the scan of a pool yields, the pod
  references to deallocate are those of the pool's orphaned reservations, one for
  each reservation and in scan order. A dead pod that holds m reservations of the
  pool is therefore in the list m times; the loop over the list succeeds and has
  invoked the primitive with exactly the pod references of the list, so m times
  with that pod; and the list then handed to \<^verbatim>\<open>Pool.Update\<close> holds no
  reservation of that pod.
\<close>

theorem one_target_per_orphaned_reservation:
  assumes "scanAllocations rl (Allocations pool) \<lparr>Pool = pool, OrphanedAllocations = []\<rparr> w =
             (w1, orphanIP)"
    and "podRef \<noteq> ''''" and "podRef \<notin> set (livePodRefs rl)"
  shows "findOutPodRefsToDeallocateIPsFrom orphanIP =
           map PodRef (filter (orphaned (livePodRefs rl)) (Allocations pool)) \<and>
         count_list (findOutPodRefsToDeallocateIPsFrom orphanIP) podRef =
           length (filter (\<lambda>r. PodRef r = podRef) (Allocations pool)) \<and>
         (\<exists>w2 updated.
            deallocateLoop w1 (Allocations pool) (findOutPodRefsToDeallocateIPsFrom orphanIP) =
              (w2, Inr updated) \<and>
            deallocCalls w2 = deallocCalls w1 @ findOutPodRefsToDeallocateIPsFrom orphanIP \<and>
            podRef \<notin> PodRef ` set updated \<and>
            updateCalls (fst (reconcileLoop rl [orphanIP] [] w1)) =
              updateCalls w1 @ [(pool, updated)])"
proof -
  define P where "P = (\<lambda>q. q \<noteq> '''' \<and> q \<notin> set (livePodRefs rl))"
  let ?orph = "filter (\<lambda>r. P (PodRef r)) (Allocations pool)"
  let ?kept = "filter (\<lambda>r. \<not> P (PodRef r)) (Allocations pool)"
  from assms(1) have group: "orphanIP = \<lparr>Pool = pool, OrphanedAllocations = ?orph\<rparr>"
    by (simp add: scanAllocations_eq P_def)
  have targets: "findOutPodRefsToDeallocateIPsFrom orphanIP = map PodRef ?orph"
    by (simp add: group findOutPodRefsToDeallocateIPsFrom_def podRefsToDeallocateLoop_eq)
  have "filter (\<lambda>r. PodRef r = podRef) ?orph = filter (\<lambda>r. PodRef r = podRef) (Allocations pool)"
    using assms(2,3) by (auto simp: P_def intro: filter_cong)
  then have count: "count_list (findOutPodRefsToDeallocateIPsFrom orphanIP) podRef =
           length (filter (\<lambda>r. PodRef r = podRef) (Allocations pool))"
    by (simp add: targets count_list_map_PodRef)
  let ?w2 = "w1\<lparr>deallocCalls := deallocCalls w1 @ map PodRef ?orph\<rparr>"
  have loop: "deallocateLoop w1 (Allocations pool) (findOutPodRefsToDeallocateIPsFrom orphanIP) =
      (?w2, Inr ?kept)"
    unfolding targets by (rule deallocateLoop_orphans)
  have gone: "podRef \<notin> PodRef ` set ?kept"
    using assms(2,3) by (auto simp: P_def)
  have written: "updateCalls (fst (reconcileLoop rl [orphanIP] [] w1)) =
      updateCalls w1 @ [(pool, ?kept)]"
    using loop by (auto simp: group PoolUpdate_def Errorf_def split: sum.splits)
  have "deallocateLoop w1 (Allocations pool) (findOutPodRefsToDeallocateIPsFrom orphanIP) =
              (?w2, Inr ?kept) \<and>
            deallocCalls ?w2 = deallocCalls w1 @ findOutPodRefsToDeallocateIPsFrom orphanIP \<and>
            podRef \<notin> PodRef ` set ?kept \<and>
            updateCalls (fst (reconcileLoop rl [orphanIP] [] w1)) =
              updateCalls w1 @ [(pool, ?kept)]"
    using loop gone written by (simp add: targets)
  then have ex: "\<exists>w2 updated.
            deallocateLoop w1 (Allocations pool) (findOutPodRefsToDeallocateIPsFrom orphanIP) =
              (w2, Inr updated) \<and>
            deallocCalls w2 = deallocCalls w1 @ findOutPodRefsToDeallocateIPsFrom orphanIP \<and>
            podRef \<notin> PodRef ` set updated \<and>
            updateCalls (fst (reconcileLoop rl [orphanIP] [] w1)) =
              updateCalls w1 @ [(pool, updated)]"
    by blast
  from targets count ex show ?thesis
    unfolding P_def by simp
qed

text \<open>The theorem on the pool in which one dead pod holds two addresses.\<close>

theorem one_target_per_orphaned_reservation_witness:
  "scanAllocations twinLooper (Allocations twinPool)
     \<lparr>Pool = twinPool, OrphanedAllocations = []\<rparr> (freshWorld twinCluster) =
     (freshWorld twinCluster, hd (orphanedIPs twinLooper)) \<and>
   ''ns/podB'' \<noteq> '''' \<and> ''ns/podB'' \<notin> set (livePodRefs twinLooper) \<and>
   findOutPodRefsToDeallocateIPsFrom (hd (orphanedIPs twinLooper)) = [''ns/podB'', ''ns/podB''] \<and>
   count_list (findOutPodRefsToDeallocateIPsFrom (hd (orphanedIPs twinLooper))) ''ns/podB'' = 2 \<and>
   length (filter (\<lambda>r. PodRef r = ''ns/podB'') (Allocations twinPool)) = 2 \<and>
   deallocateLoop (freshWorld twinCluster) (Allocations twinPool)
     (findOutPodRefsToDeallocateIPsFrom (hd (orphanedIPs twinLooper))) =
     ((freshWorld twinCluster)\<lparr>deallocCalls := [''ns/podB'', ''ns/podB'']\<rparr>,
      Inr [\<lparr>IP = ''10.0.1.1'', PodRef = ''ns/podA''\<rparr>]) \<and>
   updateCalls (fst (reconcileLoop twinLooper [hd (orphanedIPs twinLooper)] []
                      (freshWorld twinCluster))) =
     [(twinPool, [\<lparr>IP = ''10.0.1.1'', PodRef = ''ns/podA''\<rparr>])]"
proof -
  have h1: "scanAllocations twinLooper (Allocations twinPool)
     \<lparr>Pool = twinPool, OrphanedAllocations = []\<rparr> (freshWorld twinCluster) =
     (freshWorld twinCluster, hd (orphanedIPs twinLooper))"
    by (simp add: run_defs twinLooper_def twinPool_def)
  have h2: "''ns/podB'' \<noteq> ''''" by simp
  have h3: "''ns/podB'' \<notin> set (livePodRefs twinLooper)"
    by (simp add: twinLooper_def)
  have t: "findOutPodRefsToDeallocateIPsFrom (hd (orphanedIPs twinLooper)) =
      [''ns/podB'', ''ns/podB'']"
    by (simp add: run_defs twinLooper_def)
  have m: "length (filter (\<lambda>r. PodRef r = ''ns/podB'') (Allocations twinPool)) = 2"
    by (simp add: twinPool_def)
  have d: "deallocateLoop (freshWorld twinCluster) (Allocations twinPool)
     (findOutPodRefsToDeallocateIPsFrom (hd (orphanedIPs twinLooper))) =
     ((freshWorld twinCluster)\<lparr>deallocCalls := [''ns/podB'', ''ns/podB'']\<rparr>,
      Inr [\<lparr>IP = ''10.0.1.1'', PodRef = ''ns/podA''\<rparr>])"
    by (simp add: run_defs twinLooper_def twinPool_def)
  note th = one_target_per_orphaned_reservation [OF h1 h2 h3]
  from th have c0: "count_list (findOutPodRefsToDeallocateIPsFrom (hd (orphanedIPs twinLooper)))
             ''ns/podB'' = length (filter (\<lambda>r. PodRef r = ''ns/podB'') (Allocations twinPool))"
    by blast
  have c: "count_list (findOutPodRefsToDeallocateIPsFrom (hd (orphanedIPs twinLooper)))
             ''ns/podB'' = 2"
    by (rule trans [OF c0 m])
  from th obtain w2 updated where
    dl: "deallocateLoop (freshWorld twinCluster) (Allocations twinPool)
           (findOutPodRefsToDeallocateIPsFrom (hd (orphanedIPs twinLooper))) = (w2, Inr updated)"
    and uc: "updateCalls (fst (reconcileLoop twinLooper [hd (orphanedIPs twinLooper)] []
                      (freshWorld twinCluster))) =
             updateCalls (freshWorld twinCluster) @ [(twinPool, updated)]"
    by blast
  from dl d have "updated = [\<lparr>IP = ''10.0.1.1'', PodRef = ''ns/podA''\<rparr>]"
    by simp
  with uc have u: "updateCalls (fst (reconcileLoop twinLooper [hd (orphanedIPs twinLooper)] []
                      (freshWorld twinCluster))) =
     [(twinPool, [\<lparr>IP = ''10.0.1.1'', PodRef = ''ns/podA''\<rparr>])]"
    by (simp add: freshWorld_def)
  from h1 h2 h3 t c m d u show ?thesis by blast
qed

end
